theory Spec2Isabelle
  imports Complex_Main "HOL-Library.Word"
begin

unbundle bit_operations_syntax

section \<open>Python values and exceptions\<close>

text \<open>
  The module \<open>pyArbTools.py\<close> works on Python numbers, strings, lists and numpy arrays.
  Python's unbounded \<open>int\<close> is \<open>int\<close>; a Python \<open>float\<close> is the real number it denotes,
  and every operation on floats rounds its exact result to binary64 (\<open>fl\<close> below); a numpy
  array of a fixed-width integer type is a list of words; \<open>bytes\<close> is a list of 8-bit words.

  Every \<open>raise\<close> of the module, and every exception of a builtin the module calls, is a value
  of \<open>error\<close>; a function that can raise returns \<open>error + 'a\<close> with \<open>Inl\<close> for the exception.
  The two exception classes of the module carry their message; the f-string messages of
  \<open>check_wfm\<close> are kept as their interpolated numbers.
\<close>

datatype message =
    WaveformLength int int   \<comment> \<open>\<open>f'Waveform length: {rl}, must be at least {self.minLen}.'\<close>\<close>
  | WaveformGranularity int  \<comment> \<open>\<open>f'Waveform must have a granularity of {self.gran}.'\<close>\<close>
  | InvalidResolution        \<comment> \<open>\<open>'Invalid resolution selected.'\<close>\<close>

datatype error =
    AwgError message
  | VsgError message
  | ValueError string
  | KeyError string
  | IndexError
  | OverflowError
  | ZeroDivisionError
  | OSError

type_synonym byte = "8 word"
type_synonym uint32 = "32 word"

text \<open>\<open>int(x)\<close> on a float truncates towards zero.\<close>

definition py_int :: "real \<Rightarrow> int" where
  "py_int x = (if 0 \<le> x then \<lfloor>x\<rfloor> else \<lceil>x\<rceil>)"

subsection \<open>Binary64 arithmetic\<close>

text \<open>
  A float of Python and of numpy is an IEEE 754 binary64 number: a multiple of \<open>2\<^sup>e\<^sup>-\<^sup>5\<^sup>2\<close>,
  where \<open>2\<^sup>e\<close> is the largest power of two up to its magnitude, with \<open>e\<close> between -1022
  (below that the numbers are subnormal and the spacing stays \<open>2\<^sup>-\<^sup>1\<^sup>0\<^sup>7\<^sup>4\<close>) and 1023.
  \<open>fl x\<close> is the binary64 number nearest to the real \<open>x\<close>, a tie going to the even
  multiple: the value of a decimal literal, and the result of \<open>+\<close>, \<open>-\<close>, \<open>*\<close> and \<open>/\<close>
  applied to the exact result. The model has no infinities and no NaN: a result of magnitude
  \<open>2\<^sup>1\<^sup>0\<^sup>2\<^sup>4\<close> or more, an infinity in Python, is rounded on the spacing of the largest
  exponent here (where \<open>int\<close> of an infinity raises \<open>OverflowError\<close> in Python, the model
  goes on with a finite number). The model is the arithmetic of the code wherever the results
  are finite.
\<close>

definition pow2 :: "int \<Rightarrow> real" where
  "pow2 e = (if 0 \<le> e then 2 ^ nat e else 1 / 2 ^ nat (- e))"

text \<open>The exponent of a magnitude \<open>a\<close>: the search runs from 1023 down and stops at -1022.\<close>

fun find_exp :: "nat \<Rightarrow> int \<Rightarrow> real \<Rightarrow> int" where
  "find_exp 0 e a = e"
| "find_exp (Suc n) e a = (if pow2 e \<le> a then e else find_exp n (e - 1) a)"

definition binary_exponent :: "real \<Rightarrow> int" where
  "binary_exponent a = find_exp 2045 1023 a"

definition round_half_even :: "real \<Rightarrow> int" where
  "round_half_even x =
     (if x - of_int \<lfloor>x\<rfloor> < 1 / 2 then \<lfloor>x\<rfloor>
      else if 1 / 2 < x - of_int \<lfloor>x\<rfloor> then \<lfloor>x\<rfloor> + 1
      else if even \<lfloor>x\<rfloor> then \<lfloor>x\<rfloor> else \<lfloor>x\<rfloor> + 1)"

definition fl :: "real \<Rightarrow> real" where
  "fl x = of_int (round_half_even (x / pow2 (binary_exponent \<bar>x\<bar> - 52)))
            * pow2 (binary_exponent \<bar>x\<bar> - 52)"

text \<open>
  \<open>v.to_bytes(n, byteorder='little')\<close> for a non-negative \<open>v\<close>. Python raises
  \<open>OverflowError\<close> when \<open>v\<close> does not fit in \<open>n\<close> bytes; every call in the module has
  constant arguments that fit (\<open>to_bytes_constants_fit\<close> below).
\<close>

definition to_bytes :: "nat \<Rightarrow> nat \<Rightarrow> byte list" where
  "to_bytes v n = map (\<lambda>i. word_of_nat (v div 256 ^ i)) [0..<n]"

text \<open>A bytes literal such as \<open>b'STRM'\<close>.\<close>

definition bytes_literal :: "string \<Rightarrow> byte list" where
  "bytes_literal s = map of_char s"

text \<open>
  Storing a Python int into an element of a \<open>uint32\<close> array. A value in \<open>[0, 2^32)\<close> is
  stored as it is. Outside that range numpy's behaviour depends on its version and on the
  platform's C \<open>long\<close> (an \<open>OverflowError\<close>, or a silent wrap); the model takes the
  \<open>OverflowError\<close>, and no theorem below depends on that choice.
\<close>

definition uint32_setitem :: "int \<Rightarrow> error + uint32" where
  "uint32_setitem v = (if 0 \<le> v \<and> v < 2 ^ 32 then Inr (word_of_int v) else Inl OverflowError)"

text \<open>The buffer of a \<open>uint32\<close> array, as \<open>b''.join\<close> reads it (little-endian host).\<close>

definition uint32_bytes :: "uint32 \<Rightarrow> byte list" where
  "uint32_bytes w = map (\<lambda>i. ucast (drop_bit (8 * i) w)) [0..<4]"

definition array_bytes :: "uint32 list \<Rightarrow> byte list" where
  "array_bytes ws = concat (map uint32_bytes ws)"

section \<open>The UXG pulse descriptor word\<close>

text \<open>
  The ten parameters of \<open>UXG.bin_pdw_builder\<close>, after Python has filled in the defaults of
  those the caller left out (\<open>pdw_defaults\<close>). The four physical quantities are floats
  (binary64 numbers), the other six are ints. The field \<open>power\<close> of the source is
  \<open>power_dbm\<close> here.
\<close>

record pdw =
  operation :: int
  freq :: real
  phase :: real
  startTimeSec :: real
  power_dbm :: real
  markers :: int
  phaseControl :: int
  rfOff :: int
  wIndex :: int
  wfmMkrMask :: int

definition pdw_defaults :: pdw where
  "pdw_defaults = \<lparr>operation = 0, freq = 1000000000, phase = 0, startTimeSec = 0,
     power_dbm = 0, markers = 0, phaseControl = 0, rfOff = 0, wIndex = 0, wfmMkrMask = 0\<rparr>"

text \<open>
  The local variables \<open>_freq\<close>, \<open>_phase\<close>, \<open>_startTimePs\<close> and \<open>_power\<close>. Every
  operation rounds; \<open>1024\<close>, \<open>4096\<close>, \<open>360\<close>, \<open>140\<close>, \<open>0.5\<close> and \<open>1e12\<close> are binary64
  numbers as they stand, \<open>0.005\<close> is not.
\<close>

definition freq_scaled :: "pdw \<Rightarrow> int" where
  "freq_scaled d = py_int (fl (fl (freq d * 1024) + 0.5))"

definition phase_scaled :: "pdw \<Rightarrow> int" where
  "phase_scaled d = py_int (fl (fl (fl (phase d * 4096) / 360) + 0.5))"

definition startTimePs :: "pdw \<Rightarrow> int" where
  "startTimePs d = py_int (fl (startTimeSec d * 1000000000000))"

definition power_scaled :: "pdw \<Rightarrow> int" where
  "power_scaled d = py_int (fl (fl (fl (power_dbm d + 140) / fl 0.005) + 0.5))"

text \<open>The six right-hand sides that \<open>bin_pdw_builder\<close> assigns to \<open>pdw[0]\<close> .. \<open>pdw[5]\<close>.\<close>

definition pdwFormat :: int where
  "pdwFormat = 1"

definition word0_value :: "pdw \<Rightarrow> int" where
  "word0_value d =
     (pdwFormat OR push_bit 3 (operation d) OR push_bit 5 (freq_scaled d)) AND 0xFFFFFFFF"

definition word1_value :: "pdw \<Rightarrow> int" where
  "word1_value d =
     (drop_bit 27 (freq_scaled d) OR push_bit 20 (phase_scaled d)) AND 0xFFFFFFFF"

definition word2_value :: "pdw \<Rightarrow> int" where
  "word2_value d = startTimePs d AND 0xFFFFFFFF"

definition word3_value :: "pdw \<Rightarrow> int" where
  "word3_value d = drop_bit 32 (startTimePs d AND 0xFFFFFFFF00000000)"

definition word4_value :: "pdw \<Rightarrow> int" where
  "word4_value d =
     power_scaled d OR push_bit 15 (markers d) OR push_bit 27 (phaseControl d)
       OR push_bit 28 (rfOff d)"

definition word5_value :: "pdw \<Rightarrow> int" where
  "word5_value d = wIndex d OR push_bit 16 0 OR push_bit 28 (wfmMkrMask d)"

text \<open>The assignments run in order; the first store that raises ends the call.\<close>

fun store_all :: "int list \<Rightarrow> error + uint32 list" where
  "store_all [] = Inr []"
| "store_all (v # vs) =
     (case uint32_setitem v of
        Inl e \<Rightarrow> Inl e
      | Inr w \<Rightarrow> (case store_all vs of Inl e \<Rightarrow> Inl e | Inr ws \<Rightarrow> Inr (w # ws)))"

definition bin_pdw_builder :: "pdw \<Rightarrow> error + uint32 list" where
  "bin_pdw_builder d =
     store_all [word0_value d, word1_value d, word2_value d, word3_value d,
                word4_value d, word5_value d]"

section \<open>The PDW file\<close>

text \<open>
  \<open>bin_pdw_file_builder\<close> writes the file to a fixed path before it returns it, so the call
  depends on the file system: \<open>writable\<close> says which paths \<open>open(path, 'wb')\<close> can open,
  \<open>files\<close> holds the contents. The path is \<open>C:\<close>, \<open>Users\<close>, \<open>moalliso\<close>, \<open>Desktop\<close>,
  \<open>pdwtest\<close> joined by backslashes (character \<open>0x5C\<close>).
\<close>

record filesystem =
  writable :: "string \<Rightarrow> bool"
  files :: "string \<rightharpoonup> byte list"

definition pdw_path :: string where
  "pdw_path = ''C:'' @ CHR 0x5C # ''Users'' @ CHR 0x5C # ''moalliso'' @ CHR 0x5C # ''Desktop''
     @ CHR 0x5C # ''pdwtest''"

definition header :: "byte list" where
  "header =
     bytes_literal ''STRM'' @ to_bytes 1 4 @ to_bytes (nat (push_bit 1 1 AND (0x3fffff::int))) 4
       @ bytes_literal ''KEYS'' @ to_bytes 0 16 @ to_bytes 0 4 @ to_bytes 0 4 @ to_bytes 64 4
       @ to_bytes 0 4"

definition padding :: "byte list" where
  "padding = to_bytes 1 4 @ to_bytes 0 4 @ to_bytes 4016 8 @ to_bytes 0 4016"

definition pdwBlock :: "byte list" where
  "pdwBlock = to_bytes 16 4 @ to_bytes 0 4 @ to_bytes 0xffffffffffffffff 8"

text \<open>The list comprehension over \<open>pdwList\<close>: the first descriptor that raises ends the call.\<close>

fun build_pdws :: "pdw list \<Rightarrow> error + uint32 list list" where
  "build_pdws [] = Inr []"
| "build_pdws (p # ps) =
     (case bin_pdw_builder p of
        Inl e \<Rightarrow> Inl e
      | Inr r \<Rightarrow> (case build_pdws ps of Inl e \<Rightarrow> Inl e | Inr rs \<Rightarrow> Inr (r # rs)))"

definition bin_pdw_file_builder ::
    "filesystem \<Rightarrow> pdw list \<Rightarrow> error + (byte list \<times> filesystem)" where
  "bin_pdw_file_builder fs pdwList =
     (case build_pdws pdwList of
        Inl e \<Rightarrow> Inl e
      | Inr recs \<Rightarrow>
          (let pdwFile = header @ padding @ pdwBlock @ concat (map array_bytes recs)
           in if writable fs pdw_path
              then Inr (pdwFile, fs\<lparr>files := (files fs)(pdw_path \<mapsto> pdwFile)\<rparr>)
              else Inl OSError))"

section \<open>Strings\<close>

text \<open>
  The string operations \<open>check_resolution\<close> and the modulators use. Strings are ASCII (the
  instrument's SCPI replies, and the decimal digits of bits).
\<close>

text \<open>\<open>sub in s\<close>.\<close>

fun str_contains :: "string \<Rightarrow> string \<Rightarrow> bool" where
  "str_contains sub [] = (sub = [])"
| "str_contains sub (c # cs) = (take (length sub) (c # cs) = sub \<or> str_contains sub cs)"

text \<open>\<open>s.split(sep)[-1]\<close> for a one-character separator: what follows its last occurrence.\<close>

definition split_last :: "char \<Rightarrow> string \<Rightarrow> string" where
  "split_last sep s = rev (takeWhile (\<lambda>c. c \<noteq> sep) (rev s))"

text \<open>
  \<open>int(s)\<close> on a string, base 10: white space around the number is dropped, then an optional
  sign, then decimal digits, where single underscores may stand between two digits. Anything
  else is a \<open>ValueError\<close> (\<open>None\<close> here).
\<close>

definition is_space :: "char \<Rightarrow> bool" where
  "is_space c = (c \<in> set [CHR 0x20, CHR 0x09, CHR 0x0A, CHR 0x0B, CHR 0x0C, CHR 0x0D,
                            CHR 0x1C, CHR 0x1D, CHR 0x1E, CHR 0x1F])"

definition strip :: "string \<Rightarrow> string" where
  "strip s = rev (dropWhile is_space (rev (dropWhile is_space s)))"

definition is_digit :: "char \<Rightarrow> bool" where
  "is_digit c = (48 \<le> (of_char c :: nat) \<and> (of_char c :: nat) \<le> 57)"

definition digit_value :: "char \<Rightarrow> nat" where
  "digit_value c = of_char c - 48"

fun parse_digits :: "bool \<Rightarrow> nat \<Rightarrow> string \<Rightarrow> nat option" where
  "parse_digits after_digit acc [] = (if after_digit then Some acc else None)"
| "parse_digits after_digit acc (c # cs) =
     (if is_digit c then parse_digits True (acc * 10 + digit_value c) cs
      else if c = CHR ''_'' \<and> after_digit \<and> cs \<noteq> [] \<and> is_digit (hd cs)
        then parse_digits False acc cs
      else None)"

definition int_of_str :: "string \<Rightarrow> int option" where
  "int_of_str s =
     (case strip s of
        [] \<Rightarrow> None
      | c # cs \<Rightarrow>
          if c = CHR ''-'' then map_option (\<lambda>n. - int n) (parse_digits False 0 cs)
          else if c = CHR ''+'' then map_option int (parse_digits False 0 cs)
          else map_option int (parse_digits False 0 (c # cs)))"

text \<open>\<open>str(d)\<close> for an int: its decimal digits, with a minus sign when negative.\<close>

function str_nat :: "nat \<Rightarrow> string" where
  "str_nat n =
     (if n < 10 then [char_of (48 + n)] else str_nat (n div 10) @ [char_of (48 + n mod 10)])"
  by pat_completeness auto
termination
  by (relation "measure id") auto

definition str_int :: "int \<Rightarrow> string" where
  "str_int i = (if i < 0 then CHR ''-'' # str_nat (nat (- i)) else str_nat (nat i))"

section \<open>Waveform checks of the instrument classes\<close>

text \<open>
  The attributes that \<open>check_wfm\<close> reads. \<open>VSG\<close> and \<open>UXG\<close> objects have \<open>gran\<close>,
  \<open>minLen\<close> and \<open>binMult\<close>; \<open>M8195A\<close> has \<open>binShift\<close> as well; \<open>M8190A\<close> also has the
  resolution \<open>res\<close> and, once an interpolated mode has set them, \<open>intFactor\<close> and
  \<open>idleGran\<close> (\<open>None\<close> while the attribute does not exist). The other attributes of the
  classes (sample rate, reference source, ...) come from the instrument and play no role here.
\<close>

record profile =
  gran :: int
  minLen :: int
  binMult :: int

record shifted_profile = profile +
  binShift :: int

record m8190a = shifted_profile +
  res :: string
  intFactor :: "int option"
  idleGran :: "int option"

text \<open>The constants that the constructors of \<open>M8195A\<close>, \<open>VSG\<close> and \<open>UXG\<close> set; the
  \<open>UXG\<close> asks the instrument for its quantum and minimum length.\<close>

definition M8195A_init :: shifted_profile where
  "M8195A_init = \<lparr>gran = 256, minLen = 256, binMult = 127, binShift = 0\<rparr>"

definition VSG_init :: profile where
  "VSG_init = \<lparr>gran = 2, minLen = 60, binMult = 32767\<rparr>"

definition UXG_init :: "int \<Rightarrow> int \<Rightarrow> profile" where
  "UXG_init quantum slength_minimum = \<lparr>gran = quantum, minLen = slength_minimum, binMult = 32767\<rparr>"

text \<open>
  \<open>M8190A.check_resolution\<close> assigns attributes one after the other and may raise in between,
  so it returns the exception (if any) together with the object as the call leaves it.
\<close>

definition check_resolution :: "m8190a \<Rightarrow> error option \<times> m8190a" where
  "check_resolution self =
     (if res self = ''wpr''
        then (None, self\<lparr>gran := 48, minLen := 240, binMult := 8191, binShift := 2\<rparr>)
      else if res self = ''wsp''
        then (None, self\<lparr>gran := 64, minLen := 320, binMult := 2047, binShift := 4\<rparr>)
      else if str_contains ''intx'' (res self)
        then (let self1 = self\<lparr>gran := 24, minLen := 120, binMult := 16383, binShift := 1\<rparr>
              in case int_of_str (split_last (CHR ''x'') (res self)) of
                   None \<Rightarrow> (Some (ValueError ''invalid literal for int() with base 10''), self1)
                 | Some k \<Rightarrow>
                     (let self2 = self1\<lparr>intFactor := Some k\<rparr>
                      in if k = 3 then (None, self2\<lparr>idleGran := Some 8\<rparr>)
                         else if k = 12 then (None, self2\<lparr>idleGran := Some 2\<rparr>)
                         else if k = 24 \<or> k = 48 then (None, self2\<lparr>idleGran := Some 1\<rparr>)
                         else (None, self2)))
      else (Some (AwgError InvalidResolution), self))"

text \<open>
  \<open>np.array(x, dtype=...)\<close> on floats converts each one as C does: the fraction is dropped
  (truncation towards zero). For a value outside the target type C leaves the result open; the
  model takes what the conversion instruction of x86-64 gives: the float is converted to a
  32-bit integer, of which the low bits are kept, so a value within the 32-bit range wraps and
  a value beyond it (for which the instruction answers \<open>-2\<^sup>3\<^sup>1\<close>) becomes 0. \<open><<\<close> on the
  integer array drops the bits shifted out.
\<close>

definition c_int32 :: "real \<Rightarrow> int" where
  "c_int32 x = (if - (2 ^ 31) \<le> py_int x \<and> py_int x < 2 ^ 31 then py_int x else - (2 ^ 31))"

definition astype_int16 :: "real \<Rightarrow> 16 word" where
  "astype_int16 x = word_of_int (c_int32 x)"

definition astype_int8 :: "real \<Rightarrow> 8 word" where
  "astype_int8 x = word_of_int (c_int32 x)"

definition astype_uint16 :: "real \<Rightarrow> 16 word" where
  "astype_uint16 x = word_of_int (c_int32 x)"

text \<open>\<open>byteswap\<close> on a 16-bit array exchanges the two bytes of every element.\<close>

definition byteswap :: "16 word \<Rightarrow> 16 word" where
  "byteswap w = push_bit 8 w OR drop_bit 8 w"

text \<open>
  The four \<open>check_wfm\<close> methods. \<open>rl % self.gran\<close> raises \<open>ZeroDivisionError\<close> for a zero
  granularity; Python's \<open>%\<close> on ints is \<open>mod\<close>. \<open>self.binMult * wfm\<close> multiplies every
  sample of the float array by the multiplier, in binary64.
\<close>

definition M8190A_check_wfm :: "m8190a \<Rightarrow> real list \<Rightarrow> (error + 16 word list) \<times> m8190a" where
  "M8190A_check_wfm self wfm =
     (case check_resolution self of
        (Some e, self') \<Rightarrow> (Inl e, self')
      | (None, self') \<Rightarrow>
          (let rl = int (length wfm)
           in if rl < minLen self'
                then (Inl (AwgError (WaveformLength rl (minLen self'))), self')
              else if gran self' = 0 then (Inl ZeroDivisionError, self')
              else if rl mod gran self' \<noteq> 0
                then (Inl (AwgError (WaveformGranularity (gran self'))), self')
              else (Inr (map (\<lambda>x. push_bit (nat (binShift self'))
                                     (astype_int16 (fl (real_of_int (binMult self') * x)))) wfm),
                    self')))"

definition M8195A_check_wfm :: "shifted_profile \<Rightarrow> real list \<Rightarrow> error + 8 word list" where
  "M8195A_check_wfm self wfm =
     (let rl = int (length wfm)
      in if rl < minLen self then Inl (AwgError (WaveformLength rl (minLen self)))
         else if gran self = 0 then Inl ZeroDivisionError
         else if rl mod gran self \<noteq> 0 then Inl (AwgError (WaveformGranularity (gran self)))
         else Inr (map (\<lambda>x. push_bit (nat (binShift self))
                              (astype_int8 (fl (real_of_int (binMult self) * x)))) wfm))"

definition VSG_check_wfm :: "profile \<Rightarrow> real list \<Rightarrow> bool \<Rightarrow> error + 16 word list" where
  "VSG_check_wfm self wfm bigEndian =
     (let rl = int (length wfm)
      in if rl < minLen self then Inl (VsgError (WaveformLength rl (minLen self)))
         else if gran self = 0 then Inl ZeroDivisionError
         else if rl mod gran self \<noteq> 0 then Inl (VsgError (WaveformGranularity (gran self)))
         else if bigEndian
           then Inr (map (\<lambda>x. byteswap (astype_int16 (fl (real_of_int (binMult self) * x)))) wfm)
         else Inr (map (\<lambda>x. astype_int16 (fl (real_of_int (binMult self) * x))) wfm))"

definition UXG_check_wfm :: "profile \<Rightarrow> real list \<Rightarrow> bool \<Rightarrow> error + 16 word list" where
  "UXG_check_wfm self wfm bigEndian =
     (let rl = int (length wfm)
      in if rl < minLen self then Inl (VsgError (WaveformLength rl (minLen self)))
         else if gran self = 0 then Inl ZeroDivisionError
         else if rl mod gran self \<noteq> 0 then Inl (VsgError (WaveformGranularity (gran self)))
         else if bigEndian
           then Inr (map (\<lambda>x. byteswap (astype_uint16 (fl (real_of_int (binMult self) * x)))) wfm)
         else Inr (map (\<lambda>x. astype_uint16 (fl (real_of_int (binMult self) * x))) wfm))"

text \<open>The exception a call ends with, if any.\<close>

definition raised :: "error + 'a \<Rightarrow> error option" where
  "raised r = (case r of Inl e \<Rightarrow> Some e | Inr y \<Rightarrow> None)"

text \<open>
  The validation as the specification words it: the length is checked against the minimum
  first (the error carries the actual and the required length), then against the granularity;
  \<open>None\<close> when the waveform validates.
\<close>

definition validation_spec :: "int \<Rightarrow> int \<Rightarrow> int \<Rightarrow> message option" where
  "validation_spec minLength granularity len =
     (if len < minLength then Some (WaveformLength len minLength)
      else if len mod granularity \<noteq> 0 then Some (WaveformGranularity granularity)
      else None)"

section \<open>Barker coded waveforms\<close>

definition barkerCodes :: "(string \<times> int list) list" where
  "barkerCodes =
     [(''b2'', [1, -1]), (''b3'', [1, 1, -1]),
      (''b41'', [1, 1, -1, 1]), (''b42'', [1, 1, 1, -1]),
      (''b5'', [1, 1, 1, -1, 1]), (''b7'', [1, 1, 1, -1, -1, 1, -1]),
      (''b11'', [1, 1, 1, -1, -1, -1, 1, -1, -1, 1, -1]),
      (''b13'', [1, 1, 1, 1, 1, -1, -1, 1, 1, -1, 1, -1, 1])]"

text \<open>\<open>np.pi\<close>: the binary64 number that numpy has for \<open>\<pi>\<close>, 3.141592653589793.\<close>

definition np_pi :: real where
  "np_pi = 884279719003555 / 2 ^ 48"

text \<open>
  The local variable \<open>codeSamples\<close>: the division and the product round, \<open>int\<close> drops the
  fraction.
\<close>

definition codeSamples :: "real \<Rightarrow> nat \<Rightarrow> real \<Rightarrow> int" where
  "codeSamples len n fs = py_int (fl (fl (len / real n) * fs))"

text \<open>
  The array \<open>mod\<close> of \<open>barker_generator\<close>: the phase of every sample, in radians, as
  \<open>np.pi / 2\<close> times the chip. An unknown code is the \<open>KeyError\<close> of the dictionary lookup;
  \<open>np.full\<close> refuses a negative length. The parameter \<open>length\<close> of the source is \<open>len\<close>
  here.
\<close>

definition barker_mod :: "real \<Rightarrow> real \<Rightarrow> string \<Rightarrow> error + real list" where
  "barker_mod len fs code =
     (case map_of barkerCodes code of
        None \<Rightarrow> Inl (KeyError code)
      | Some chips \<Rightarrow>
          (if codeSamples len (length chips) fs < 0
             then Inl (ValueError ''negative dimensions are not allowed'')
           else (let barker = concat (map (\<lambda>p. replicate (nat (codeSamples len (length chips) fs))
                                                  (real_of_int p)) chips)
                 in Inr (map (\<lambda>b. fl (fl (np_pi / 2) * b)) barker))))"

text \<open>
  \<open>iq = np.exp(1j * mod)\<close>, the last sample zeroed on request (\<open>iq[-1]\<close> raises
  \<open>IndexError\<close> on an empty array), returned as its real and imaginary parts. The complex
  exponential is the one of numpy and of the C library under it, whose results are not fixed by
  the source: it is the parameter \<open>np_exp\<close>. \<open>1j * mod\<close> has real part 0 and the phase
  as imaginary part.
\<close>

definition barker_generator ::
    "(complex \<Rightarrow> complex) \<Rightarrow> real \<Rightarrow> real \<Rightarrow> string \<Rightarrow> bool \<Rightarrow> error + (real list \<times> real list)" where
  "barker_generator np_exp len fs code zeroLast =
     (case barker_mod len fs code of
        Inl e \<Rightarrow> Inl e
      | Inr md \<Rightarrow>
          (let iq = map (\<lambda>m. np_exp (Complex 0 m)) md
           in if zeroLast
              then (if iq = [] then Inl IndexError
                    else (let iq' = butlast iq @ [0] in Inr (map Re iq', map Im iq')))
              else Inr (map Re iq, map Im iq)))"

text \<open>
  The same array as the specification words it: chip \<open>+1\<close> at phase \<open>0\<close>, chip \<open>-1\<close> at
  phase \<open>\<pi>\<close>, each chip held for \<open>round(duration / codeLength * sampleRate)\<close> samples.
\<close>

definition barker_mod_spec :: "real \<Rightarrow> real \<Rightarrow> string \<Rightarrow> error + real list" where
  "barker_mod_spec duration sampleRate code =
     (case map_of barkerCodes code of
        None \<Rightarrow> Inl (KeyError code)
      | Some chips \<Rightarrow>
          Inr (concat (map (\<lambda>p. replicate (nat (round (duration / real (length chips) * sampleRate)))
                                    (if p = 1 then 0 else pi)) chips)))"

section \<open>Constellation modulators\<close>

text \<open>\<open>xs[0::k]\<close>: every \<open>k\<close>-th element, from the first; \<open>xs[i::k]\<close> is
  \<open>stride k (drop i xs)\<close>.\<close>

fun stride :: "nat \<Rightarrow> 'a list \<Rightarrow> 'a list" where
  "stride k [] = []"
| "stride k (x # xs) = x # stride k (drop (k - 1) xs)"

type_synonym constellation = "(string \<times> complex) list"

text \<open>
  A dictionary from symbol strings to points is an association list with distinct keys.
  \<open>if customMap:\<close> takes the default map for \<open>None\<close> and for an empty dictionary.
\<close>

definition choose_map :: "constellation option \<Rightarrow> constellation \<Rightarrow> constellation" where
  "choose_map customMap default_map =
     (case customMap of None \<Rightarrow> default_map | Some m \<Rightarrow> if m = [] then default_map else m)"

text \<open>\<open>[m[p] for p in pattern]\<close>, the \<open>KeyError\<close> of a missing symbol turned into the
  \<open>ValueError\<close> of the modulator.\<close>

fun map_symbols :: "constellation \<Rightarrow> string \<Rightarrow> string list \<Rightarrow> error + complex list" where
  "map_symbols m msg [] = Inr []"
| "map_symbols m msg (p # ps) =
     (case map_of m p of
        None \<Rightarrow> Inl (ValueError msg)
      | Some z \<Rightarrow> (case map_symbols m msg ps of Inl e \<Rightarrow> Inl e | Inr zs \<Rightarrow> Inr (z # zs)))"

definition qpskMap :: constellation where
  "qpskMap = [(''00'', Complex 1 1), (''01'', Complex (-1) 1), (''10'', Complex (-1) (-1)),
              (''11'', Complex 1 (-1))]"

definition psk8Map :: constellation where
  "psk8Map = [(''000'', Complex 1 0), (''001'', Complex (fl 0.707) (fl 0.707)),
              (''010'', Complex 0 1), (''011'', Complex (- fl 0.707) (fl 0.707)),
              (''100'', Complex (-1) 0), (''101'', Complex (- fl 0.707) (- fl 0.707)),
              (''110'', Complex 0 (-1)), (''111'', Complex (fl 0.707) (- fl 0.707))]"

text \<open>The literal that \<open>qam16_modulator\<close> and \<open>qam32_modulator\<close> both contain.\<close>

definition qamMap :: constellation where
  "qamMap = [(''0000'', Complex (-3) (-3)), (''0001'', Complex (-3) (-1)),
             (''0010'', Complex (-3) 3), (''0011'', Complex (-3) 1),
             (''0100'', Complex (-1) (-3)), (''0101'', Complex (-1) (-1)),
             (''0110'', Complex (-1) 3), (''0111'', Complex (-1) 1),
             (''1000'', Complex 3 (-3)), (''1001'', Complex 3 (-1)),
             (''1010'', Complex 3 3), (''1011'', Complex 3 1),
             (''1100'', Complex 1 (-3)), (''1101'', Complex 1 (-1)),
             (''1110'', Complex 1 3), (''1111'', Complex 1 1)]"

definition qpsk_modulator :: "int list \<Rightarrow> constellation option \<Rightarrow> error + complex list" where
  "qpsk_modulator data customMap =
     (let pattern = map (\<lambda>(d0, d1). str_int d0 @ str_int d1)
                        (zip (stride 2 data) (stride 2 (drop 1 data)))
      in map_symbols (choose_map customMap qpskMap) ''Invalid QPSK symbol.'' pattern)"

definition psk8_modulator :: "int list \<Rightarrow> constellation option \<Rightarrow> error + complex list" where
  "psk8_modulator data customMap =
     (let pattern = map (\<lambda>(d0, d1, d2). str_int d0 @ str_int d1 @ str_int d2)
                        (zip (stride 3 data) (zip (stride 3 (drop 1 data)) (stride 3 (drop 2 data))))
      in map_symbols (choose_map customMap psk8Map) ''Invalid 8PSK symbol.'' pattern)"

definition qam16_modulator :: "int list \<Rightarrow> constellation option \<Rightarrow> error + complex list" where
  "qam16_modulator data customMap =
     (let pattern = map (\<lambda>(d0, d1, d2, d3). str_int d0 @ str_int d1 @ str_int d2 @ str_int d3)
                        (zip (stride 4 data) (zip (stride 4 (drop 1 data))
                          (zip (stride 4 (drop 2 data)) (stride 4 (drop 3 data)))))
      in map_symbols (choose_map customMap qamMap) ''Invalid 16 QAM symbol.'' pattern)"

definition qam32_modulator :: "int list \<Rightarrow> constellation option \<Rightarrow> error + complex list" where
  "qam32_modulator data customMap =
     (let pattern = map (\<lambda>(d0, d1, d2, d3, d4).
                             str_int d0 @ str_int d1 @ str_int d2 @ str_int d3 @ str_int d4)
                        (zip (stride 5 data) (zip (stride 5 (drop 1 data))
                          (zip (stride 5 (drop 2 data))
                            (zip (stride 5 (drop 3 data)) (stride 5 (drop 4 data))))))
      in map_symbols (choose_map customMap qamMap) ''Invalid 16 QAM symbol.'' pattern)"

text \<open>The number of bit positions in which two symbol strings of equal length differ.\<close>

definition bit_distance :: "string \<Rightarrow> string \<Rightarrow> nat" where
  "bit_distance a b = length (filter (\<lambda>(x, y). x \<noteq> y) (zip a b))"

section \<open>Rounding to binary64\<close>

text \<open>
  The powers of two of the model are the real powers; the exponent search finds the exponent
  of every magnitude in the normal range and stops at -1022 below it.
\<close>

lemma pow2_powr: "pow2 e = 2 powr (real_of_int e)"
proof (cases "0 \<le> e")
  case True
  then show ?thesis
    by (simp add: pow2_def powr_realpow [symmetric])
next
  case False
  then have "real (nat (- e)) = - real_of_int e"
    by simp
  then have "(2::real) ^ nat (- e) = 2 powr (- real_of_int e)"
    by (metis powr_realpow zero_less_numeral)
  then show ?thesis
    using False by (simp add: pow2_def powr_minus_divide)
qed

lemma pow2_pos: "0 < pow2 e"
  by (simp add: pow2_powr)

lemma pow2_less_iff: "pow2 a < pow2 b \<longleftrightarrow> a < b"
  by (simp add: pow2_powr)

lemma pow2_le_iff: "pow2 a \<le> pow2 b \<longleftrightarrow> a \<le> b"
  by (simp add: pow2_powr)

lemma pow2_add: "pow2 (a + b) = pow2 a * pow2 b"
  by (simp add: pow2_powr powr_add)

lemma pow2_diff: "pow2 (a - b) = pow2 a / pow2 b"
  by (simp add: pow2_powr powr_diff)

lemma pow2_nat: "0 \<le> e \<Longrightarrow> pow2 e = of_int (2 ^ nat e)"
  by (simp add: pow2_def)

lemma find_exp_found:
  "pow2 e0 \<le> a \<Longrightarrow> a < pow2 (e0 + 1) \<Longrightarrow> e0 \<le> e \<Longrightarrow> e - int n \<le> e0 \<Longrightarrow>
     find_exp n e a = e0"
proof (induction n arbitrary: e)
  case 0
  then show ?case by simp
next
  case (Suc n)
  show ?case
  proof (cases "pow2 e \<le> a")
    case True
    then have "pow2 e < pow2 (e0 + 1)"
      using Suc.prems(2) by simp
    then have "e \<le> e0"
      by (simp add: pow2_less_iff)
    then show ?thesis
      using True Suc.prems(3) by simp
  next
    case False
    then have "pow2 e0 < pow2 e"
      using Suc.prems(1) by simp
    then have "e0 < e"
      by (simp add: pow2_less_iff)
    then have "find_exp n (e - 1) a = e0"
      using Suc.prems by (intro Suc.IH) simp_all
    then show ?thesis
      using False by simp
  qed
qed

lemma find_exp_bottom:
  "a < pow2 (e - int n + 1) \<Longrightarrow> find_exp n e a = e - int n"
proof (induction n arbitrary: e)
  case 0
  then show ?case by simp
next
  case (Suc n)
  have "pow2 (e - int (Suc n) + 1) \<le> pow2 e"
    by (simp add: pow2_le_iff)
  then have "\<not> pow2 e \<le> a"
    using Suc.prems by simp
  moreover have "find_exp n (e - 1) a = e - 1 - int n"
    using Suc.prems by (intro Suc.IH) (simp add: algebra_simps)
  ultimately show ?case by simp
qed

lemma binary_exponent_eq:
  assumes "pow2 e \<le> a" "a < pow2 (e + 1)" "- 1022 \<le> e" "e \<le> 1023"
  shows "binary_exponent a = e"
  unfolding binary_exponent_def using assms by (intro find_exp_found) simp_all

lemma binary_exponent_subnormal:
  assumes "a < pow2 (- 1021)"
  shows "binary_exponent a = - 1022"
proof -
  have "find_exp 2045 1023 a = 1023 - int 2045"
    using assms by (intro find_exp_bottom) simp
  then show ?thesis
    by (simp add: binary_exponent_def)
qed

text \<open>Rounding a number whose exponent is known.\<close>

lemma fl_eval:
  assumes "pow2 e \<le> \<bar>x\<bar>" "\<bar>x\<bar> < pow2 (e + 1)" "- 1022 \<le> e" "e \<le> 1023"
  shows "fl x = of_int (round_half_even (x / pow2 (e - 52))) * pow2 (e - 52)"
  unfolding fl_def binary_exponent_eq [OF assms] ..

lemma round_half_even_of_int: "round_half_even (of_int j) = j"
  by (simp add: round_half_even_def)

lemma fl_zero: "fl 0 = 0"
  by (simp add: fl_def round_half_even_def)

lemma find_exp_bounds: "e - int n \<le> find_exp n e a \<and> find_exp n e a \<le> e"
proof (induction n arbitrary: e)
  case 0
  then show ?case by simp
next
  case (Suc n)
  have "e - 1 - int n \<le> find_exp n (e - 1) a \<and> find_exp n (e - 1) a \<le> e - 1"
    by (rule Suc.IH)
  then show ?case by auto
qed

lemma find_exp_reached:
  "pow2 (find_exp n e a) \<le> a \<or> find_exp n e a = e - int n"
proof (induction n arbitrary: e)
  case 0
  then show ?case by simp
next
  case (Suc n)
  have "pow2 (find_exp n (e - 1) a) \<le> a \<or> find_exp n (e - 1) a = e - 1 - int n"
    by (rule Suc.IH)
  then show ?case by auto
qed

lemma binary_exponent_bounds:
  "- 1022 \<le> binary_exponent a \<and> binary_exponent a \<le> 1023"
  using find_exp_bounds [of 1023 2045 a] by (simp add: binary_exponent_def)

lemma binary_exponent_reached:
  "pow2 (binary_exponent a) \<le> a \<or> binary_exponent a = - 1022"
  using find_exp_reached [of 2045 1023 a] by (simp add: binary_exponent_def)

text \<open>
  A multiple \<open>m * 2\<^sup>k\<close> of a power of two with \<open>|m| < 2\<^sup>5\<^sup>3\<close> and \<open>k \<ge> -1074\<close> is a
  binary64 number: rounding leaves it as it is.
\<close>

lemma fl_exact:
  assumes x: "x = of_int m * pow2 k" and m: "\<bar>m\<bar> < 2 ^ 53" and k: "- 1074 \<le> k"
  shows "fl x = x"
proof -
  define e where "e = binary_exponent \<bar>x\<bar>"
  have eb: "- 1022 \<le> e" "e \<le> 1023"
    using binary_exponent_bounds [of "\<bar>x\<bar>"] by (simp_all add: e_def)
  have ek: "e - 52 \<le> k"
  proof (cases "e = - 1022")
    case True
    then show ?thesis using k by simp
  next
    case False
    then have lt: "- 1022 < e" using eb by simp
    have "pow2 e \<le> \<bar>x\<bar>"
      using binary_exponent_reached [of "\<bar>x\<bar>"] False by (simp add: e_def)
    moreover have "\<bar>x\<bar> < pow2 53 * pow2 k"
    proof -
      have "\<bar>x\<bar> = of_int \<bar>m\<bar> * pow2 k"
        using pow2_pos [of k] by (simp add: x abs_mult)
      moreover have "real_of_int \<bar>m\<bar> < pow2 53"
        using m by (simp add: pow2_def)
      ultimately show ?thesis
        using pow2_pos [of k] by simp
    qed
    ultimately have "pow2 e < pow2 (53 + k)"
      by (simp add: pow2_add)
    then show ?thesis
      by (simp add: pow2_less_iff)
  qed
  then have pk: "pow2 k / pow2 (e - 52) = of_int (2 ^ nat (k - (e - 52)))"
    using pow2_nat [of "k - (e - 52)"] by (simp add: pow2_diff)
  have "x / pow2 (e - 52) = of_int m * (pow2 k / pow2 (e - 52))"
    unfolding x by simp
  also have "\<dots> = of_int m * of_int (2 ^ nat (k - (e - 52)))"
    by (simp only: pk)
  also have "\<dots> = of_int (m * 2 ^ nat (k - (e - 52)))"
    by simp
  finally have q: "x / pow2 (e - 52) = of_int (m * 2 ^ nat (k - (e - 52)))" .
  have "round_half_even (x / pow2 (e - 52)) = m * 2 ^ nat (k - (e - 52))"
    by (simp only: q round_half_even_of_int)
  then have "fl x = of_int (m * 2 ^ nat (k - (e - 52))) * pow2 (e - 52)"
    by (simp add: fl_def e_def)
  also have "\<dots> = x / pow2 (e - 52) * pow2 (e - 52)"
    by (simp only: q)
  also have "\<dots> = x"
    using pow2_pos [of "e - 52"] by simp
  finally show ?thesis .
qed

section \<open>The PDW file: where the first record starts\<close>

lemma length_to_bytes: "length (to_bytes v n) = n"
  by (simp add: to_bytes_def)

lemma length_header: "length header = 48"
  by (simp add: header_def bytes_literal_def length_to_bytes)

lemma length_padding: "length padding = 4032"
  by (simp add: padding_def length_to_bytes)

lemma length_pdwBlock: "length pdwBlock = 16"
  by (simp add: pdwBlock_def length_to_bytes)

lemma length_uint32_bytes: "length (uint32_bytes w) = 4"
  by (simp add: uint32_bytes_def)

lemma store_all_length: "store_all vs = Inr ws \<Longrightarrow> length ws = length vs"
  by (induction vs arbitrary: ws) (auto split: sum.splits)

lemma bin_pdw_builder_length: "bin_pdw_builder d = Inr ws \<Longrightarrow> length ws = 6"
  unfolding bin_pdw_builder_def by (drule store_all_length) simp

lemma length_array_bytes: "length (array_bytes ws) = 4 * length ws"
  by (induction ws) (simp_all add: array_bytes_def length_uint32_bytes)

lemma to_bytes_constants_fit:
  "(1::nat) < 256 ^ 4" "nat (push_bit 1 1 AND (0x3fffff::int)) < 256 ^ 4" "(0::nat) < 256 ^ 16"
  "(0::nat) < 256 ^ 4" "(64::nat) < 256 ^ 4" "(4016::nat) < 256 ^ 8" "(0::nat) < 256 ^ n"
  "(16::nat) < 256 ^ 4" "(0xffffffffffffffff::nat) < 256 ^ 8"
  by simp_all

lemma build_pdws_length: "build_pdws ps = Inr rs \<Longrightarrow> length rs = length ps"
  by (induction ps arbitrary: rs) (auto split: sum.splits)

lemma build_pdws_all: "build_pdws ps = Inr rs \<Longrightarrow> \<forall>r \<in> set rs. length r = 6"
  by (induction ps arbitrary: rs) (auto split: sum.splits dest: bin_pdw_builder_length)

lemma py_int_nonneg: "0 \<le> x \<Longrightarrow> py_int x = \<lfloor>x\<rfloor>"
  by (simp add: py_int_def)

text \<open>
  The scaled fields at the values used below. The default frequency and the powers 0 and 24
  are binary64 numbers and so are their sums with 140; the literal \<open>0.005\<close> is not, and the
  quotients by it are rounded: to 28000 and to 32800.
\<close>

lemma fl_0005: "fl 0.005 = 5764607523034235 / 2 ^ 60"
  using fl_eval [of "- 8" "0.005"] by (simp add: pow2_def round_half_even_def)

lemma freq_scaled_1GHz:
  assumes "freq d = 1000000000"
  shows "freq_scaled d = 1024000000000"
proof -
  have a: "fl (freq d * 1024) = 1024000000000"
    using fl_exact [of "freq d * 1024" 1024000000000 0] assms by (simp add: pow2_def)
  have b: "fl (1024000000000 + 0.5) = 2048000000001 / 2"
    using fl_exact [of "1024000000000 + 0.5" 2048000000001 "- 1"] by (simp add: pow2_def)
  show ?thesis
    unfolding freq_scaled_def a b by (simp add: py_int_def)
qed

lemma fl_half: "fl (0 + 0.5) = 1 / 2"
  using fl_exact [of "0 + 0.5" 1 "- 1"] by (simp add: pow2_def)

lemma phase_scaled_0:
  assumes "phase d = 0"
  shows "phase_scaled d = 0"
proof -
  have a: "fl (phase d * 4096) = 0"
    using assms by (simp add: fl_zero)
  have b: "fl (0 / 360) = 0"
    by (simp add: fl_zero)
  show ?thesis
    unfolding phase_scaled_def a b fl_half by (simp add: py_int_def)
qed

lemma startTimePs_0:
  assumes "startTimeSec d = 0"
  shows "startTimePs d = 0"
  using assms by (simp add: startTimePs_def fl_zero py_int_def)

lemma power_scaled_0:
  assumes "power_dbm d = 0"
  shows "power_scaled d = 28000"
proof -
  have a: "fl (power_dbm d + 140) = 140"
    using fl_exact [of "power_dbm d + 140" 140 0] assms by (simp add: pow2_def)
  have b: "fl (140 / (5764607523034235 / 2 ^ 60)) = 28000"
    using fl_eval [of 14 "140 / (5764607523034235 / 2 ^ 60)"]
    by (simp add: pow2_def round_half_even_def)
  have c: "fl (28000 + 0.5) = 56001 / 2"
    using fl_exact [of "28000 + 0.5" 56001 "- 1"] by (simp add: pow2_def)
  show ?thesis
    unfolding power_scaled_def a fl_0005 b c by (simp add: py_int_def)
qed




lemma float_fields_defaults:
  "freq pdw_defaults = 1000000000" "phase pdw_defaults = 0"
  "startTimeSec pdw_defaults = 0" "power_dbm pdw_defaults = 0"
  by (simp_all add: pdw_defaults_def)

lemma scaled_defaults:
  "freq_scaled pdw_defaults = 1024000000000" "phase_scaled pdw_defaults = 0"
  "startTimePs pdw_defaults = 0" "power_scaled pdw_defaults = 28000"
  by (simp_all add: freq_scaled_1GHz phase_scaled_0 startTimePs_0 power_scaled_0
      float_fields_defaults)

lemma words_defaults:
  "word0_value pdw_defaults = 1694498817" "word1_value pdw_defaults = 7629"
  "word2_value pdw_defaults = 0" "word3_value pdw_defaults = 0"
  "word4_value pdw_defaults = 28000" "word5_value pdw_defaults = 0"
  by (simp_all add: word0_value_def word1_value_def word2_value_def word3_value_def
      word4_value_def word5_value_def scaled_defaults pdwFormat_def)
    (simp_all add: pdw_defaults_def)

lemma bin_pdw_builder_defaults:
  "bin_pdw_builder pdw_defaults = Inr [1694498817, 7629, 0, 0, 28000, 0]"
  by (simp add: bin_pdw_builder_def words_defaults uint32_setitem_def)

lemma bin_pdw_file_builder_returns:
  assumes "build_pdws pdwList = Inr recs" and "writable fs pdw_path"
  shows "\<exists>fs'. bin_pdw_file_builder fs pdwList =
           Inr (header @ padding @ pdwBlock @ concat (map array_bytes recs), fs')"
  using assms by (simp add: bin_pdw_file_builder_def Let_def)

text \<open>
  Claim C1. For a non-empty list of descriptors, the file that \<open>bin_pdw_file_builder\<close> returns
  starts with the fixed header, the padding block and the header of the PDW block, which take
  exactly 4096 bytes together; the 24 bytes at offset 4096 are the encoding of the first
  descriptor, whatever the number of descriptors, and every descriptor adds 24 bytes.
\<close>

theorem first_pdw_at_offset_4096:
  assumes "pdwList \<noteq> []"
    and "bin_pdw_file_builder fs pdwList = Inr (pdwFile, fs')"
  shows "\<exists>r. bin_pdw_builder (hd pdwList) = Inr r
           \<and> take 4096 pdwFile = header @ padding @ pdwBlock
           \<and> length (take 4096 pdwFile) = 4096
           \<and> take 24 (drop 4096 pdwFile) = array_bytes r
           \<and> length pdwFile = 4096 + 24 * length pdwList"
proof -
  obtain p ps where pl: "pdwList = p # ps"
    using assms(1) by (cases pdwList) auto
  from assms(2) obtain recs where recs: "build_pdws pdwList = Inr recs"
    and pf: "pdwFile = header @ padding @ pdwBlock @ concat (map array_bytes recs)"
    by (auto simp: bin_pdw_file_builder_def Let_def split: sum.splits if_splits)
  from recs pl obtain r rs where r: "bin_pdw_builder p = Inr r" and rs: "recs = r # rs"
    by (auto split: sum.splits)
  have len6: "\<forall>x \<in> set recs. length x = 6"
    using recs by (rule build_pdws_all)
  have lr: "length (array_bytes r) = 24"
    using bin_pdw_builder_length [OF r] by (simp add: length_array_bytes)
  have pre: "length (header @ padding @ pdwBlock) = 4096"
    by (simp add: length_header length_padding length_pdwBlock)
  have l_all: "length (concat (map array_bytes recs)) = 24 * length recs"
    using len6 by (induction recs) (simp_all add: length_array_bytes)
  have t1: "take 4096 pdwFile = header @ padding @ pdwBlock"
    using pre unfolding pf by (metis append.assoc append_eq_conv_conj)
  have d1: "drop 4096 pdwFile = concat (map array_bytes recs)"
    using pre unfolding pf by (metis append.assoc append_eq_conv_conj)
  have t2: "take 24 (drop 4096 pdwFile) = array_bytes r"
    unfolding d1 rs using lr by simp
  have "length pdwFile = 4096 + 24 * length pdwList"
    using pre l_all build_pdws_length [OF recs] unfolding pf by simp
  with r t1 t2 pre pl show ?thesis by simp
qed

text \<open>The call returns a file whenever every descriptor encodes and the path can be opened
  (\<open>bin_pdw_file_builder_returns\<close>); here it runs on the default descriptor.\<close>

theorem first_pdw_at_offset_4096_witness:
  "[pdw_defaults] \<noteq> []
   \<and> bin_pdw_file_builder \<lparr>writable = \<lambda>p. True, files = Map.empty\<rparr> [pdw_defaults] =
       Inr (header @ padding @ pdwBlock @ array_bytes [1694498817, 7629, 0, 0, 28000, 0],
            \<lparr>writable = \<lambda>p. True, files = [pdw_path \<mapsto>
               header @ padding @ pdwBlock @ array_bytes [1694498817, 7629, 0, 0, 28000, 0]]\<rparr>)
   \<and> (\<exists>r. bin_pdw_builder (hd [pdw_defaults]) = Inr r
           \<and> take 4096 (header @ padding @ pdwBlock
                 @ array_bytes [1694498817, 7629, 0, 0, 28000, 0]) = header @ padding @ pdwBlock
           \<and> length (take 4096 (header @ padding @ pdwBlock
                 @ array_bytes [1694498817, 7629, 0, 0, 28000, 0])) = 4096
           \<and> take 24 (drop 4096 (header @ padding @ pdwBlock
                 @ array_bytes [1694498817, 7629, 0, 0, 28000, 0])) = array_bytes r
           \<and> length (header @ padding @ pdwBlock
                 @ array_bytes [1694498817, 7629, 0, 0, 28000, 0]) = 4096 + 24 * length [pdw_defaults])"
proof -
  have ne: "[pdw_defaults] \<noteq> []" by simp
  have run: "bin_pdw_file_builder \<lparr>writable = \<lambda>p. True, files = Map.empty\<rparr> [pdw_defaults] =
       Inr (header @ padding @ pdwBlock @ array_bytes [1694498817, 7629, 0, 0, 28000, 0],
            \<lparr>writable = \<lambda>p. True, files = [pdw_path \<mapsto>
               header @ padding @ pdwBlock @ array_bytes [1694498817, 7629, 0, 0, 28000, 0]]\<rparr>)"
    by (simp add: bin_pdw_file_builder_def bin_pdw_builder_defaults Let_def)
  from first_pdw_at_offset_4096 [OF ne run] ne run show ?thesis by blast
qed

section \<open>The six words of a descriptor\<close>

lemma mask32: "(0xFFFFFFFF::int) = mask 32"
  by (simp add: mask_eq_exp_minus_1)

lemma int_fields_defaults:
  "operation pdw_defaults = 0" "markers pdw_defaults = 0" "phaseControl pdw_defaults = 0"
  "rfOff pdw_defaults = 0" "wIndex pdw_defaults = 0" "wfmMkrMask pdw_defaults = 0"
  by (simp_all add: pdw_defaults_def)

text \<open>
  \<open>2\<^sup>-\<^sup>4\<^sup>0\<close> is a binary64 number and so is its product with \<open>1e12\<close>,
  \<open>244140625 / 2\<^sup>2\<^sup>8\<close> = 0.909...: nothing is rounded before \<open>int\<close> truncates.
\<close>

lemma start_time_words:
  "startTimePs (pdw_defaults\<lparr>startTimeSec := 1 / 2 ^ 40\<rparr>) = 0"
proof -
  have a: "fl (startTimeSec (pdw_defaults\<lparr>startTimeSec := 1 / 2 ^ 40\<rparr>) * 1000000000000)
      = 244140625 / 2 ^ 28"
    using fl_exact [of "startTimeSec (pdw_defaults\<lparr>startTimeSec := 1 / 2 ^ 40\<rparr>) * 1000000000000"
        244140625 "- 28"]
    by (simp add: pow2_def)
  show ?thesis
    unfolding startTimePs_def a by (simp add: py_int_def)
qed

text \<open>
  The rounding of the arithmetic is part of the results. The literal \<open>1e-6\<close> is a binary64
  number just under a microsecond and its exact product with \<open>1e12\<close> is just under
  \<open>10\<^sup>6\<close>; the binary64 product is \<open>10\<^sup>6\<close>, and so is the start time in picoseconds.
  At the power \<open>-127.9525\<close> the exact quotient by \<open>1/200\<close> would fall under the half, the
  binary64 quotient by \<open>0.005\<close> is 2409.5, and the scaled power is 2410.
\<close>

lemma fl_micro: "fl (1 / 1000000) = 4722366482869645 / 2 ^ 72"
  using fl_eval [of "- 20" "1 / 1000000"] by (simp add: pow2_def round_half_even_def)

lemma startTimePs_microsecond:
  assumes "startTimeSec d = fl (1 / 1000000)"
  shows "startTimePs d = 1000000"
proof -
  have s: "startTimeSec d = 4722366482869645 / 2 ^ 72"
    using assms unfolding fl_micro .
  have a: "fl (4722366482869645 / 2 ^ 72 * 1000000000000) = 1000000"
    using fl_eval [of 19 "4722366482869645 / 2 ^ 72 * 1000000000000"]
    by (simp add: pow2_def round_half_even_def)
  show ?thesis
    unfolding startTimePs_def s a by (simp add: py_int_def)
qed

lemma fl_m1279525: "fl (- 127.9525) = - (9003856739392553 / 2 ^ 46)"
  using fl_eval [of 6 "- 127.9525"] by (simp add: pow2_def round_half_even_def)

lemma power_scaled_m1279525:
  assumes "power_dbm d = fl (- 127.9525)"
  shows "power_scaled d = 2410"
proof -
  have p: "power_dbm d = - (9003856739392553 / 2 ^ 46)"
    using assms unfolding fl_m1279525 .
  have a: "fl (power_dbm d + 140) = 847767445480407 / 2 ^ 46"
    using fl_exact [of "power_dbm d + 140" 847767445480407 "- 46"] p
    by (simp add: pow2_def)
  have b: "fl (847767445480407 / 2 ^ 46 / (5764607523034235 / 2 ^ 60)) = 4819 / 2"
    using fl_eval [of 11 "847767445480407 / 2 ^ 46 / (5764607523034235 / 2 ^ 60)"]
    by (simp add: pow2_def round_half_even_def)
  have c: "fl (4819 / 2 + 0.5) = 2410"
    using fl_exact [of "4819 / 2 + 0.5" 2410 0] by (simp add: pow2_def)
  show ?thesis
    unfolding power_scaled_def a fl_0005 b c by (simp add: py_int_def)
qed

lemma scaled_update_startTime:
  "freq_scaled (d\<lparr>startTimeSec := t\<rparr>) = freq_scaled d"
  "phase_scaled (d\<lparr>startTimeSec := t\<rparr>) = phase_scaled d"
  "power_scaled (d\<lparr>startTimeSec := t\<rparr>) = power_scaled d"
  by (simp_all add: freq_scaled_def phase_scaled_def power_scaled_def)






lemma word_values_in_range:
  "0 \<le> word0_value d \<and> word0_value d < 2 ^ 32"
  "0 \<le> word1_value d \<and> word1_value d < 2 ^ 32"
  "0 \<le> word2_value d \<and> word2_value d < 2 ^ 32"
  "0 \<le> word3_value d \<and> word3_value d < 2 ^ 32"
proof -
  have m: "0 \<le> k AND mask 32 \<and> k AND mask 32 < 2 ^ 32" for k :: int
    using take_bit_int_less_exp [of 32 k] by (simp flip: take_bit_eq_mask)
  show "0 \<le> word0_value d \<and> word0_value d < 2 ^ 32"
    unfolding word0_value_def mask32 by (rule m)
  show "0 \<le> word1_value d \<and> word1_value d < 2 ^ 32"
    unfolding word1_value_def mask32 by (rule m)
  show "0 \<le> word2_value d \<and> word2_value d < 2 ^ 32"
    unfolding word2_value_def mask32 by (rule m)
  have c: "(0xFFFFFFFF00000000::int) = push_bit 32 (mask 32)"
    by (simp add: mask_eq_exp_minus_1 push_bit_eq_mult)
  have "word3_value d = drop_bit 32 (startTimePs d) AND mask 32"
    unfolding word3_value_def c
    by (rule bit_eqI) (auto simp: bit_simps)
  then show "0 \<le> word3_value d \<and> word3_value d < 2 ^ 32"
    using m by simp
qed

lemma uint32_setitem_in_range:
  "0 \<le> v \<Longrightarrow> v < 2 ^ 32 \<Longrightarrow> uint32_setitem v = Inr (word_of_int v)"
  by (simp add: uint32_setitem_def)

lemma bin_pdw_builder_stores:
  assumes "0 \<le> word4_value d" "word4_value d < 2 ^ 32"
    and "0 \<le> word5_value d" "word5_value d < 2 ^ 32"
  shows "bin_pdw_builder d =
     Inr [word_of_int (word0_value d), word_of_int (word1_value d), word_of_int (word2_value d),
          word_of_int (word3_value d), word_of_int (word4_value d), word_of_int (word5_value d)]"
  using assms word_values_in_range [of d]
  by (simp add: bin_pdw_builder_def uint32_setitem_in_range)

lemma uint_stored: "0 \<le> v \<Longrightarrow> v < 2 ^ 32 \<Longrightarrow> uint (word_of_int v :: uint32) = v"
  by (simp add: uint_word_of_int_eq take_bit_int_eq_self)

lemma or_mult_eq_add:
  fixes a b :: int
  assumes "0 \<le> a" "a < 2 ^ n"
  shows "a OR b * 2 ^ n = a + b * 2 ^ n"
proof -
  have t: "take_bit n a = a"
    using assms by (simp add: take_bit_int_eq_self)
  then have "a OR push_bit n b = concat_bit n a b"
    by (simp add: concat_bit_def)
  also have "\<dots> = take_bit n a + push_bit n b"
    by (rule concat_bit_eq)
  finally show ?thesis
    using t by (simp add: push_bit_eq_mult)
qed

lemma word0_layout:
  assumes "0 \<le> operation d" "operation d < 4" "0 \<le> freq_scaled d"
  shows "word0_value d = 1 + 8 * operation d + 32 * (freq_scaled d mod 2 ^ 27)"
proof -
  define op where "op = operation d"
  define f where "f = freq_scaled d"
  have r: "0 \<le> op" "op < 4" "0 \<le> f"
    using assms by (simp_all add: op_def f_def)
  have a: "op * 2 ^ 3 OR f * 2 ^ 5 = op * 2 ^ 3 + f * 2 ^ 5"
    using r by (intro or_mult_eq_add) simp_all
  have e: "op * 2 ^ 3 + f * 2 ^ 5 = (op + f * 4) * 2 ^ 3"
    by simp
  have "1 OR (op + f * 4) * 2 ^ 3 = 1 + (op + f * 4) * 2 ^ 3"
    by (intro or_mult_eq_add) simp_all
  then have b: "1 OR (op * 2 ^ 3 + f * 2 ^ 5) = 1 + (op * 2 ^ 3 + f * 2 ^ 5)"
    unfolding e .
  have "word0_value d = (1 OR op * 2 ^ 3 OR f * 2 ^ 5) AND mask 32"
    unfolding word0_value_def mask32 push_bit_eq_mult pdwFormat_def op_def f_def ..
  also have "\<dots> = (1 + (op * 2 ^ 3 + f * 2 ^ 5)) mod 2 ^ 32"
    unfolding a b by (simp only: take_bit_eq_mod flip: take_bit_eq_mask)
  also have "\<dots> = 1 + 8 * op + 32 * (f mod 2 ^ 27)"
  proof -
    define q where "q = f div 2 ^ 27"
    define t where "t = f mod 2 ^ 27"
    have f: "f = t + q * 2 ^ 27"
      by (simp add: q_def t_def)
    have t: "0 \<le> t" "t < 2 ^ 27"
      by (simp_all add: t_def)
    have "1 + (op * 2 ^ 3 + f * 2 ^ 5) = (1 + 8 * op + 32 * t) + q * 2 ^ 32"
      unfolding f by simp
    then have "(1 + (op * 2 ^ 3 + f * 2 ^ 5)) mod 2 ^ 32 = (1 + 8 * op + 32 * t) mod 2 ^ 32"
      by (simp only: mod_mult_self1)
    also have "\<dots> = 1 + 8 * op + 32 * t"
      using r t by (intro mod_pos_pos_trivial) simp_all
    finally show ?thesis
      unfolding t_def .
  qed
  finally show ?thesis
    unfolding op_def f_def .
qed

lemma word1_layout:
  assumes "0 \<le> freq_scaled d" "freq_scaled d < 2 ^ 47"
    and "0 \<le> phase_scaled d" "phase_scaled d < 2 ^ 12"
  shows "word1_value d = freq_scaled d div 2 ^ 27 + 2 ^ 20 * phase_scaled d"
proof -
  define f where "f = freq_scaled d"
  define p where "p = phase_scaled d"
  have r: "0 \<le> f" "f < 2 ^ 47" "0 \<le> p" "p < 2 ^ 12"
    using assms by (simp_all add: p_def f_def)
  have a: "f div 2 ^ 27 OR p * 2 ^ 20 = f div 2 ^ 27 + p * 2 ^ 20"
    using r by (intro or_mult_eq_add) (simp_all add: pos_imp_zdiv_nonneg_iff, presburger?)
  have "word1_value d = (f div 2 ^ 27 OR p * 2 ^ 20) AND mask 32"
    unfolding word1_value_def mask32 push_bit_eq_mult drop_bit_eq_div p_def f_def ..
  also have "\<dots> = (f div 2 ^ 27 + p * 2 ^ 20) mod 2 ^ 32"
    unfolding a by (simp only: take_bit_eq_mod flip: take_bit_eq_mask)
  also have "\<dots> = f div 2 ^ 27 + 2 ^ 20 * p"
    using r by simp
  finally show ?thesis
    unfolding p_def f_def .
qed

lemma word23_layout:
  assumes "0 \<le> startTimePs d" "startTimePs d < 2 ^ 64"
  shows "word2_value d = startTimePs d mod 2 ^ 32" "word3_value d = startTimePs d div 2 ^ 32"
proof -
  show "word2_value d = startTimePs d mod 2 ^ 32"
    unfolding word2_value_def mask32 by (simp only: take_bit_eq_mod flip: take_bit_eq_mask)
  have c: "(0xFFFFFFFF00000000::int) = push_bit 32 (mask 32)"
    by (simp add: mask_eq_exp_minus_1 push_bit_eq_mult)
  have "word3_value d = drop_bit 32 (startTimePs d) AND mask 32"
    unfolding word3_value_def c
    by (rule bit_eqI) (auto simp: bit_simps)
  also have "\<dots> = (startTimePs d div 2 ^ 32) mod 2 ^ 32"
    by (simp only: take_bit_eq_mod drop_bit_eq_div flip: take_bit_eq_mask)
  also have "\<dots> = startTimePs d div 2 ^ 32"
    using assms by simp
  finally show "word3_value d = startTimePs d div 2 ^ 32" .
qed

lemma word4_layout:
  assumes "0 \<le> power_scaled d" "power_scaled d < 2 ^ 15"
    and "0 \<le> markers d" "markers d < 2 ^ 12"
    and "0 \<le> phaseControl d" "phaseControl d < 2"
  shows "word4_value d =
     power_scaled d + 2 ^ 15 * markers d + 2 ^ 27 * phaseControl d + 2 ^ 28 * rfOff d"
proof -
  define pw where "pw = power_scaled d"
  define m where "m = markers d"
  define pc where "pc = phaseControl d"
  define rf where "rf = rfOff d"
  have r: "0 \<le> pw" "pw < 2 ^ 15" "0 \<le> m" "m < 2 ^ 12" "0 \<le> pc" "pc < 2"
    using assms by (simp_all add: pw_def m_def pc_def)
  have a: "pc * 2 ^ 27 OR rf * 2 ^ 28 = pc * 2 ^ 27 + rf * 2 ^ 28"
    using r by (intro or_mult_eq_add) simp_all
  have e1: "pc * 2 ^ 27 + rf * 2 ^ 28 = (pc + rf * 2) * 2 ^ 27"
    by simp
  have "m * 2 ^ 15 OR (pc + rf * 2) * 2 ^ 27 = m * 2 ^ 15 + (pc + rf * 2) * 2 ^ 27"
    using r by (intro or_mult_eq_add) simp_all
  then have b: "m * 2 ^ 15 OR (pc * 2 ^ 27 + rf * 2 ^ 28) = m * 2 ^ 15 + (pc * 2 ^ 27 + rf * 2 ^ 28)"
    unfolding e1 .
  have e2: "m * 2 ^ 15 + (pc * 2 ^ 27 + rf * 2 ^ 28) = (m + pc * 2 ^ 12 + rf * 2 ^ 13) * 2 ^ 15"
    by simp
  have "pw OR (m + pc * 2 ^ 12 + rf * 2 ^ 13) * 2 ^ 15 = pw + (m + pc * 2 ^ 12 + rf * 2 ^ 13) * 2 ^ 15"
    using r by (intro or_mult_eq_add) simp_all
  then have c: "pw OR (m * 2 ^ 15 + (pc * 2 ^ 27 + rf * 2 ^ 28))
      = pw + (m * 2 ^ 15 + (pc * 2 ^ 27 + rf * 2 ^ 28))"
    unfolding e2 .
  have "word4_value d = (pw OR m * 2 ^ 15 OR pc * 2 ^ 27 OR rf * 2 ^ 28)"
    unfolding word4_value_def push_bit_eq_mult pw_def m_def pc_def rf_def ..
  also have "\<dots> = pw + (m * 2 ^ 15 + (pc * 2 ^ 27 + rf * 2 ^ 28))"
    unfolding a b c ..
  finally have "word4_value d = pw + (m * 2 ^ 15 + (pc * 2 ^ 27 + rf * 2 ^ 28))" .
  then show ?thesis
    by (simp add: pw_def m_def pc_def rf_def)
qed

lemma word5_layout:
  assumes "0 \<le> wIndex d" "wIndex d < 2 ^ 16"
  shows "word5_value d = wIndex d + 2 ^ 28 * wfmMkrMask d"
proof -
  have "word5_value d = wIndex d OR wfmMkrMask d * 2 ^ 28"
    unfolding word5_value_def push_bit_eq_mult by simp
  also have "\<dots> = wIndex d + wfmMkrMask d * 2 ^ 28"
    using assms by (intro or_mult_eq_add) simp_all
  finally show ?thesis by simp
qed

text \<open>
  When every field fits its width the six words are the sums of the shifted fields: the
  layout of the format, with the start time \<^emph>\<open>truncated\<close> to picoseconds.
\<close>

lemma bin_pdw_builder_layout:
  assumes "0 \<le> operation d" "operation d < 4"
    and "0 \<le> freq_scaled d" "freq_scaled d < 2 ^ 47"
    and "0 \<le> phase_scaled d" "phase_scaled d < 2 ^ 12"
    and "0 \<le> startTimePs d" "startTimePs d < 2 ^ 64"
    and "0 \<le> power_scaled d" "power_scaled d < 2 ^ 15"
    and "0 \<le> markers d" "markers d < 2 ^ 12"
    and "0 \<le> phaseControl d" "phaseControl d < 2"
    and "0 \<le> rfOff d" "rfOff d < 2"
    and "0 \<le> wIndex d" "wIndex d < 2 ^ 16"
    and "0 \<le> wfmMkrMask d" "wfmMkrMask d < 2 ^ 4"
  shows "\<exists>w0 w1 w2 w3 w4 w5.
     bin_pdw_builder d = Inr [w0, w1, w2, w3, w4, w5]
     \<and> uint w0 = 1 + 8 * operation d + 32 * (freq_scaled d mod 2 ^ 27)
     \<and> uint w1 = freq_scaled d div 2 ^ 27 + 2 ^ 20 * phase_scaled d
     \<and> uint w2 = startTimePs d mod 2 ^ 32
     \<and> uint w3 = startTimePs d div 2 ^ 32
     \<and> uint w4 = power_scaled d + 2 ^ 15 * markers d + 2 ^ 27 * phaseControl d
                    + 2 ^ 28 * rfOff d
     \<and> uint w5 = wIndex d + 2 ^ 28 * wfmMkrMask d"
proof -
  have l4: "word4_value d =
      power_scaled d + 2 ^ 15 * markers d + 2 ^ 27 * phaseControl d + 2 ^ 28 * rfOff d"
    using assms by (intro word4_layout) simp_all
  have l5: "word5_value d = wIndex d + 2 ^ 28 * wfmMkrMask d"
    using assms by (intro word5_layout) simp_all
  have r4: "0 \<le> word4_value d" "word4_value d < 2 ^ 32"
    unfolding l4 using assms by simp_all
  have r5: "0 \<le> word5_value d" "word5_value d < 2 ^ 32"
    unfolding l5 using assms by simp_all
  have u: "uint (word_of_int (word0_value d) :: uint32) = word0_value d"
    "uint (word_of_int (word1_value d) :: uint32) = word1_value d"
    "uint (word_of_int (word2_value d) :: uint32) = word2_value d"
    "uint (word_of_int (word3_value d) :: uint32) = word3_value d"
    "uint (word_of_int (word4_value d) :: uint32) = word4_value d"
    "uint (word_of_int (word5_value d) :: uint32) = word5_value d"
    using word_values_in_range [of d] r4 r5 by (simp_all add: uint_stored)
  have l0: "word0_value d = 1 + 8 * operation d + 32 * (freq_scaled d mod 2 ^ 27)"
    using assms by (intro word0_layout) simp_all
  have l1: "word1_value d = freq_scaled d div 2 ^ 27 + 2 ^ 20 * phase_scaled d"
    using assms by (intro word1_layout) simp_all
  have l2: "word2_value d = startTimePs d mod 2 ^ 32"
    and l3: "word3_value d = startTimePs d div 2 ^ 32"
    using assms word23_layout [of d] by simp_all
  show ?thesis
    using bin_pdw_builder_stores [OF r4 r5] u
    unfolding l0 l1 l2 l3 l4 l5 by blast
qed

text \<open>
  Claim C2 asks for the start time rounded to the nearest picosecond, as the three other
  scaled fields are (each has its \<open>+ 0.5\<close>); \<open>_startTimePs\<close> alone is \<open>int(...)\<close> of the
  product, which truncates. At \<open>startTimeSec = 2\<^sup>-\<^sup>4\<^sup>0\<close> (0.909... ps; the value and its
  product with \<open>1e12\<close> are binary64 numbers, so that no rounding of the arithmetic is
  involved) the nearest picosecond is 1, and the start-time words of the record hold 0.
\<close>

theorem start_time_truncated_not_rounded:
  "startTimePs (pdw_defaults\<lparr>startTimeSec := 1 / 2 ^ 40\<rparr>) = 0
   \<and> round (startTimeSec (pdw_defaults\<lparr>startTimeSec := 1 / 2 ^ 40\<rparr>) * 1000000000000) = 1
   \<and> bin_pdw_builder (pdw_defaults\<lparr>startTimeSec := 1 / 2 ^ 40\<rparr>) =
       Inr [1694498817, 7629, 0, 0, 28000, 0]"
proof -
  have w: "word0_value (pdw_defaults\<lparr>startTimeSec := 1 / 2 ^ 40\<rparr>) = 1694498817"
    "word1_value (pdw_defaults\<lparr>startTimeSec := 1 / 2 ^ 40\<rparr>) = 7629"
    "word2_value (pdw_defaults\<lparr>startTimeSec := 1 / 2 ^ 40\<rparr>) = 0"
    "word3_value (pdw_defaults\<lparr>startTimeSec := 1 / 2 ^ 40\<rparr>) = 0"
    "word4_value (pdw_defaults\<lparr>startTimeSec := 1 / 2 ^ 40\<rparr>) = 28000"
    "word5_value (pdw_defaults\<lparr>startTimeSec := 1 / 2 ^ 40\<rparr>) = 0"
    unfolding word0_value_def word1_value_def word2_value_def word3_value_def
      word4_value_def word5_value_def scaled_update_startTime scaled_defaults pdwFormat_def
      start_time_words
    by (simp_all add: int_fields_defaults)
  have r: "round (startTimeSec (pdw_defaults\<lparr>startTimeSec := 1 / 2 ^ 40\<rparr>) * 1000000000000) = 1"
    by (simp add: round_def)
  show ?thesis
    unfolding start_time_words r bin_pdw_builder_def w by (simp add: uint32_setitem_def)
qed




section \<open>Resolution modes and waveform checks\<close>

lemma int_of_str_5: "int_of_str ''5'' = Some 5"
  by (simp add: int_of_str_def strip_def is_space_def is_digit_def digit_value_def)

lemma int_of_str_3: "int_of_str ''3'' = Some 3"
  by (simp add: int_of_str_def strip_def is_space_def is_digit_def digit_value_def)

lemma int_of_str_empty: "int_of_str '''' = None"
  by (simp add: int_of_str_def strip_def)

lemma split_last_intx5: "split_last (CHR ''x'') ''intx5'' = ''5''"
  by (simp add: split_last_def)

lemma split_last_intx3: "split_last (CHR ''x'') ''intx3'' = ''3''"
  by (simp add: split_last_def)

lemma split_last_intx: "split_last (CHR ''x'') ''intx'' = ''''"
  by (simp add: split_last_def)

lemma contains_intx: "str_contains ''intx'' ''intx5''" "str_contains ''intx'' ''intx''"
  "str_contains ''intx'' ''intx3''"
  by simp_all

lemma check_resolution_intx3:
  "check_resolution \<lparr>gran = 64, minLen = 320, binMult = 2047, binShift = 4, res = ''intx3'',
       intFactor = None, idleGran = None\<rparr> =
     (None, \<lparr>gran = 24, minLen = 120, binMult = 16383, binShift = 1, res = ''intx3'',
       intFactor = Some 3, idleGran = Some 8\<rparr>)"
  by (simp add: check_resolution_def contains_intx split_last_intx3 int_of_str_3)

lemma check_resolution_None:
  assumes "check_resolution self = (None, self')"
  shows "(gran self', minLen self', binMult self', binShift self') \<in>
     {(48, 240, 8191, 2), (64, 320, 2047, 4), (24, 120, 16383, 1)}"
  using assms
  by (auto simp: check_resolution_def Let_def split: if_splits option.splits)

lemma check_resolution_wsp:
  "res self = ''wsp'' \<Longrightarrow> check_resolution self =
     (None, self\<lparr>gran := 64, minLen := 320, binMult := 2047, binShift := 4\<rparr>)"
  by (simp add: check_resolution_def)

lemma check_resolution_unknown:
  "res self \<noteq> ''wpr'' \<Longrightarrow> res self \<noteq> ''wsp'' \<Longrightarrow> \<not> str_contains ''intx'' (res self) \<Longrightarrow>
     check_resolution self = (Some (AwgError InvalidResolution), self)"
  by (simp add: check_resolution_def)

lemma M8190A_check_wfm_cases:
  assumes "check_resolution self = (None, self')"
  shows "M8190A_check_wfm self wfm =
     (if int (length wfm) < minLen self'
        then (Inl (AwgError (WaveformLength (int (length wfm)) (minLen self'))), self')
      else if int (length wfm) mod gran self' \<noteq> 0
        then (Inl (AwgError (WaveformGranularity (gran self'))), self')
      else (Inr (map (\<lambda>x. push_bit (nat (binShift self'))
                            (astype_int16 (fl (real_of_int (binMult self') * x)))) wfm), self'))"
  using check_resolution_None [OF assms] assms
  by (auto simp: M8190A_check_wfm_def Let_def)

lemma M8190A_check_wfm_raises:
  "check_resolution self = (Some e, self') \<Longrightarrow> M8190A_check_wfm self wfm = (Inl e, self')"
  by (simp add: M8190A_check_wfm_def)

lemma M8195A_check_wfm_cases:
  assumes "gran self \<noteq> 0"
  shows "M8195A_check_wfm self wfm =
     (if int (length wfm) < minLen self
        then Inl (AwgError (WaveformLength (int (length wfm)) (minLen self)))
      else if int (length wfm) mod gran self \<noteq> 0
        then Inl (AwgError (WaveformGranularity (gran self)))
      else Inr (map (\<lambda>x. push_bit (nat (binShift self))
                           (astype_int8 (fl (real_of_int (binMult self) * x)))) wfm))"
  using assms by (simp add: M8195A_check_wfm_def Let_def)

lemma VSG_check_wfm_cases:
  assumes "gran self \<noteq> 0"
  shows "VSG_check_wfm self wfm bigEndian =
     (if int (length wfm) < minLen self
        then Inl (VsgError (WaveformLength (int (length wfm)) (minLen self)))
      else if int (length wfm) mod gran self \<noteq> 0
        then Inl (VsgError (WaveformGranularity (gran self)))
      else if bigEndian
        then Inr (map (\<lambda>x. byteswap (astype_int16 (fl (real_of_int (binMult self) * x)))) wfm)
      else Inr (map (\<lambda>x. astype_int16 (fl (real_of_int (binMult self) * x))) wfm))"
  using assms by (simp add: VSG_check_wfm_def Let_def)

lemma UXG_check_wfm_cases:
  assumes "gran self \<noteq> 0"
  shows "UXG_check_wfm self wfm bigEndian =
     (if int (length wfm) < minLen self
        then Inl (VsgError (WaveformLength (int (length wfm)) (minLen self)))
      else if int (length wfm) mod gran self \<noteq> 0
        then Inl (VsgError (WaveformGranularity (gran self)))
      else if bigEndian
        then Inr (map (\<lambda>x. byteswap (astype_uint16 (fl (real_of_int (binMult self) * x)))) wfm)
      else Inr (map (\<lambda>x. astype_uint16 (fl (real_of_int (binMult self) * x))) wfm))"
  using assms by (simp add: UXG_check_wfm_def Let_def)

lemma init_fields:
  "minLen M8195A_init = 256" "gran M8195A_init = 256" "binMult M8195A_init = 127"
  "binShift M8195A_init = 0" "minLen VSG_init = 60" "gran VSG_init = 2"
  "binMult VSG_init = 32767"
  by (simp_all add: M8195A_init_def VSG_init_def)

lemma UXG_init_fields:
  "minLen (UXG_init g m) = m" "gran (UXG_init g m) = g" "binMult (UXG_init g m) = 32767"
  by (simp_all add: UXG_init_def)

lemma check_resolution_wsp_state:
  "check_resolution \<lparr>gran = 48, minLen = 240, binMult = 8191, binShift = 2, res = ''wsp'',
       intFactor = None, idleGran = None\<rparr> =
     (None, \<lparr>gran = 64, minLen = 320, binMult = 2047, binShift = 4, res = ''wsp'',
       intFactor = None, idleGran = None\<rparr>)"
  by (simp add: check_resolution_def)

text \<open>The exception of each \<open>check_wfm\<close> is the one of the validation.\<close>

lemma M8190A_check_wfm_validation:
  assumes "check_resolution self = (None, self')"
  shows "raised (fst (M8190A_check_wfm self wfm)) =
     map_option AwgError (validation_spec (minLen self') (gran self') (int (length wfm)))"
  by (simp add: M8190A_check_wfm_cases [OF assms] raised_def validation_spec_def)

lemma M8195A_check_wfm_validation:
  assumes "gran self \<noteq> 0"
  shows "raised (M8195A_check_wfm self wfm) =
     map_option AwgError (validation_spec (minLen self) (gran self) (int (length wfm)))"
  by (simp add: M8195A_check_wfm_cases [OF assms] raised_def validation_spec_def)

lemma VSG_check_wfm_validation:
  assumes "gran self \<noteq> 0"
  shows "raised (VSG_check_wfm self wfm bigEndian) =
     map_option VsgError (validation_spec (minLen self) (gran self) (int (length wfm)))"
  by (simp add: VSG_check_wfm_cases [OF assms] raised_def validation_spec_def)

lemma UXG_check_wfm_validation:
  assumes "gran self \<noteq> 0"
  shows "raised (UXG_check_wfm self wfm bigEndian) =
     map_option VsgError (validation_spec (minLen self) (gran self) (int (length wfm)))"
  by (simp add: UXG_check_wfm_cases [OF assms] raised_def validation_spec_def)

lemma validation_spec_boundaries:
  assumes "0 < g" "m mod g = 0"
  shows "validation_spec m g m = None"
    and "validation_spec m g (m - 1) = Some (WaveformLength (m - 1) m)"
    and "validation_spec m g (m + g) = None"
    and "1 < g \<Longrightarrow> validation_spec m g (m + 1) = Some (WaveformGranularity g)"
proof -
  show "validation_spec m g m = None"
    using assms by (simp add: validation_spec_def)
  show "validation_spec m g (m - 1) = Some (WaveformLength (m - 1) m)"
    by (simp add: validation_spec_def)
  have "(m + g) mod g = 0"
    using assms(2) by simp
  then show "validation_spec m g (m + g) = None"
    using assms(1) by (simp add: validation_spec_def)
  assume g: "1 < g"
  have "(m + 1) mod g = (m mod g + 1 mod g) mod g"
    by (rule mod_add_eq [symmetric])
  also have "\<dots> = 1"
    using assms(2) g by simp
  finally show "validation_spec m g (m + 1) = Some (WaveformGranularity g)"
    by (simp add: validation_spec_def)
qed

text \<open>
  Claim C5 speaks of every device profile. The profile of a \<open>UXG\<close> is what the instrument
  answers. With a quantum of 4 and a minimum length of 10 a waveform of exactly the minimum
  length does not validate: it fails the granularity check. With a quantum of 0 the check of
  the granularity raises \<open>ZeroDivisionError\<close>, which is neither of the two errors. With a
  negative quantum, -4 at a minimum length of 12, one granule more than the minimum is 8
  samples, which fail the length check.
\<close>

theorem check_wfm_minimum_length_counterexample:
  "minLen (UXG_init 4 10) = 10
   \<and> length (replicate 10 (0::real)) = 10
   \<and> raised (UXG_check_wfm (UXG_init 4 10) (replicate 10 0) True) =
       Some (VsgError (WaveformGranularity 4))
   \<and> raised (UXG_check_wfm (UXG_init 0 10) (replicate 10 0) True) = Some ZeroDivisionError
   \<and> minLen (UXG_init (- 4) 12) + gran (UXG_init (- 4) 12) = 8
   \<and> raised (UXG_check_wfm (UXG_init (- 4) 12) (replicate 8 0) True) =
       Some (VsgError (WaveformLength 8 12))"
  by (simp add: UXG_check_wfm_def UXG_init_def raised_def)

text \<open>
  Claim C5 as amended. On every profile whose granularity is not zero each of the four
  \<open>check_wfm\<close> ends exactly as the validation of the specification says: the length is
  compared with the minimum first (the error carries both numbers), the granularity second,
  and a call that raises returns no array. This holds for the \<open>M8190A\<close> in each of its
  resolution modes, and for any \<open>M8195A\<close>, \<open>VSG\<close> and \<open>UXG\<close> object. Whenever the
  granularity is positive and divides the minimum length, a waveform of exactly the minimum
  length validates, one sample less fails, one granule more validates, and one sample more
  fails when the granularity exceeds 1; the \<open>M8190A\<close> in each mode, the \<open>M8195A\<close> and the
  \<open>VSG\<close> as their constructors set them are such profiles.
\<close>

theorem check_wfm_length_then_granularity:
  assumes "check_resolution self = (None, self')"
  shows
    "raised (fst (M8190A_check_wfm self wfm)) =
        map_option AwgError (validation_spec (minLen self') (gran self') (int (length wfm)))
     \<and> (gran awg \<noteq> 0 \<longrightarrow>
          raised (M8195A_check_wfm awg wfm) =
            map_option AwgError (validation_spec (minLen awg) (gran awg) (int (length wfm))))
     \<and> (gran vsg \<noteq> 0 \<longrightarrow>
          raised (VSG_check_wfm vsg wfm bigEndian) =
            map_option VsgError (validation_spec (minLen vsg) (gran vsg) (int (length wfm))))
     \<and> (gran uxg \<noteq> 0 \<longrightarrow>
          raised (UXG_check_wfm uxg wfm bigEndian) =
            map_option VsgError (validation_spec (minLen uxg) (gran uxg) (int (length wfm))))
     \<and> (\<forall>(m, g) \<in> {(minLen self', gran self'), (minLen M8195A_init, gran M8195A_init),
                      (minLen VSG_init, gran VSG_init)}. 0 < g \<and> m mod g = 0)
     \<and> (0 < g \<and> m mod g = 0 \<longrightarrow>
          validation_spec m g m = None
          \<and> validation_spec m g (m - 1) = Some (WaveformLength (m - 1) m)
          \<and> validation_spec m g (m + g) = None
          \<and> (1 < g \<longrightarrow> validation_spec m g (m + 1) = Some (WaveformGranularity g)))"
proof (intro conjI impI)
  show "raised (fst (M8190A_check_wfm self wfm)) =
        map_option AwgError (validation_spec (minLen self') (gran self') (int (length wfm)))"
    by (rule M8190A_check_wfm_validation [OF assms])
  show "raised (M8195A_check_wfm awg wfm) =
        map_option AwgError (validation_spec (minLen awg) (gran awg) (int (length wfm)))"
    if "gran awg \<noteq> 0"
    by (rule M8195A_check_wfm_validation [OF that])
  show "raised (VSG_check_wfm vsg wfm bigEndian) =
        map_option VsgError (validation_spec (minLen vsg) (gran vsg) (int (length wfm)))"
    if "gran vsg \<noteq> 0"
    by (rule VSG_check_wfm_validation [OF that])
  show "raised (UXG_check_wfm uxg wfm bigEndian) =
        map_option VsgError (validation_spec (minLen uxg) (gran uxg) (int (length wfm)))"
    if "gran uxg \<noteq> 0"
    by (rule UXG_check_wfm_validation [OF that])
  have "(minLen self', gran self') \<in> {(240, 48), (320, 64), (120, 24)}"
    using check_resolution_None [OF assms] by auto
  then show "\<forall>(m, g) \<in> {(minLen self', gran self'), (minLen M8195A_init, gran M8195A_init),
                      (minLen VSG_init, gran VSG_init)}. 0 < g \<and> m mod g = 0"
    by (auto simp: init_fields)
  show "validation_spec m g m = None" if "0 < g \<and> m mod g = 0"
    using that by (simp add: validation_spec_boundaries)
  show "validation_spec m g (m - 1) = Some (WaveformLength (m - 1) m)" if "0 < g \<and> m mod g = 0"
    using that by (simp add: validation_spec_boundaries)
  show "validation_spec m g (m + g) = None" if "0 < g \<and> m mod g = 0"
    using that by (simp add: validation_spec_boundaries)
  show "validation_spec m g (m + 1) = Some (WaveformGranularity g)"
    if "0 < g \<and> m mod g = 0" and "1 < g"
    using that by (simp add: validation_spec_boundaries)
qed

text \<open>
  The theorem at work: the \<open>M8190A\<close> in the 12-bit mode (minimum 320, granularity 64), the
  \<open>VSG\<close>, and a \<open>UXG\<close> that reports a quantum of 4 and a minimum length of 12.
\<close>

theorem check_wfm_length_then_granularity_witness:
  "check_resolution \<lparr>gran = 48, minLen = 240, binMult = 8191, binShift = 2, res = ''wsp'',
       intFactor = None, idleGran = None\<rparr> =
     (None, \<lparr>gran = 64, minLen = 320, binMult = 2047, binShift = 4, res = ''wsp'',
       intFactor = None, idleGran = None\<rparr>)
   \<and> gran M8195A_init \<noteq> 0 \<and> gran VSG_init \<noteq> 0 \<and> gran (UXG_init 4 12) \<noteq> 0
   \<and> (0::int) < 4 \<and> (12::int) mod 4 = 0
   \<and> raised (fst (M8190A_check_wfm \<lparr>gran = 48, minLen = 240, binMult = 8191, binShift = 2,
         res = ''wsp'', intFactor = None, idleGran = None\<rparr> (replicate 320 0))) = None
   \<and> raised (fst (M8190A_check_wfm \<lparr>gran = 48, minLen = 240, binMult = 8191, binShift = 2,
         res = ''wsp'', intFactor = None, idleGran = None\<rparr> (replicate 319 0))) =
       Some (AwgError (WaveformLength 319 320))
   \<and> raised (fst (M8190A_check_wfm \<lparr>gran = 48, minLen = 240, binMult = 8191, binShift = 2,
         res = ''wsp'', intFactor = None, idleGran = None\<rparr> (replicate 321 0))) =
       Some (AwgError (WaveformGranularity 64))
   \<and> raised (fst (M8190A_check_wfm \<lparr>gran = 48, minLen = 240, binMult = 8191, binShift = 2,
         res = ''wsp'', intFactor = None, idleGran = None\<rparr> (replicate 384 0))) = None
   \<and> raised (M8195A_check_wfm M8195A_init (replicate 257 0)) =
       Some (AwgError (WaveformGranularity 256))
   \<and> raised (VSG_check_wfm VSG_init (replicate 59 0) True) =
       Some (VsgError (WaveformLength 59 60))
   \<and> raised (UXG_check_wfm (UXG_init 4 12) (replicate 12 0) True) = None
   \<and> raised (UXG_check_wfm (UXG_init 4 12) (replicate 11 0) True) =
       Some (VsgError (WaveformLength 11 12))
   \<and> raised (UXG_check_wfm (UXG_init 4 12) (replicate 16 0) True) = None
   \<and> raised (UXG_check_wfm (UXG_init 4 12) (replicate 13 0) True) =
       Some (VsgError (WaveformGranularity 4))
   \<and> validation_spec 12 4 12 = None
   \<and> validation_spec 12 4 (12 - 1) = Some (WaveformLength (12 - 1) 12)
   \<and> validation_spec 12 4 (12 + 4) = None
   \<and> validation_spec 12 4 (12 + 1) = Some (WaveformGranularity 4)"
proof -
  note t = check_wfm_length_then_granularity [OF check_resolution_wsp_state,
      where awg = M8195A_init and vsg = VSG_init and uxg = "UXG_init 4 12"
        and bigEndian = True and m = 12 and g = 4]
  have g: "gran M8195A_init \<noteq> 0" "gran VSG_init \<noteq> 0" "gran (UXG_init 4 12) \<noteq> 0"
    "(0::int) < 4" "(12::int) mod 4 = 0"
    by (simp_all add: init_fields UXG_init_fields)
  have a: "raised (fst (M8190A_check_wfm \<lparr>gran = 48, minLen = 240, binMult = 8191, binShift = 2,
         res = ''wsp'', intFactor = None, idleGran = None\<rparr> (replicate 320 0))) = None"
    using t [of "replicate 320 0"] by (simp add: validation_spec_def)
  have b: "raised (fst (M8190A_check_wfm \<lparr>gran = 48, minLen = 240, binMult = 8191, binShift = 2,
         res = ''wsp'', intFactor = None, idleGran = None\<rparr> (replicate 319 0))) =
       Some (AwgError (WaveformLength 319 320))"
    using t [of "replicate 319 0"] by (simp add: validation_spec_def)
  have c: "raised (fst (M8190A_check_wfm \<lparr>gran = 48, minLen = 240, binMult = 8191, binShift = 2,
         res = ''wsp'', intFactor = None, idleGran = None\<rparr> (replicate 321 0))) =
       Some (AwgError (WaveformGranularity 64))"
    using t [of "replicate 321 0"] by (simp add: validation_spec_def)
  have d: "raised (fst (M8190A_check_wfm \<lparr>gran = 48, minLen = 240, binMult = 8191, binShift = 2,
         res = ''wsp'', intFactor = None, idleGran = None\<rparr> (replicate 384 0))) = None"
    using t [of "replicate 384 0"] by (simp add: validation_spec_def)
  have e: "raised (M8195A_check_wfm M8195A_init (replicate 257 0)) =
       Some (AwgError (WaveformGranularity 256))"
    using t [of "replicate 257 0"] g by (simp add: validation_spec_def init_fields)
  have f: "raised (VSG_check_wfm VSG_init (replicate 59 0) True) =
       Some (VsgError (WaveformLength 59 60))"
    using t [of "replicate 59 0"] g by (simp add: validation_spec_def init_fields)
  have u1: "raised (UXG_check_wfm (UXG_init 4 12) (replicate 12 0) True) = None"
    using t [of "replicate 12 0"] g by (simp add: validation_spec_def UXG_init_fields)
  have u2: "raised (UXG_check_wfm (UXG_init 4 12) (replicate 11 0) True) =
       Some (VsgError (WaveformLength 11 12))"
    using t [of "replicate 11 0"] g by (simp add: validation_spec_def UXG_init_fields)
  have u3: "raised (UXG_check_wfm (UXG_init 4 12) (replicate 16 0) True) = None"
    using t [of "replicate 16 0"] g by (simp add: validation_spec_def UXG_init_fields)
  have u4: "raised (UXG_check_wfm (UXG_init 4 12) (replicate 13 0) True) =
       Some (VsgError (WaveformGranularity 4))"
    using t [of "replicate 13 0"] g by (simp add: validation_spec_def UXG_init_fields)
  have v: "validation_spec 12 4 12 = None
      \<and> validation_spec 12 4 (12 - 1) = Some (WaveformLength (12 - 1) 12)
      \<and> validation_spec 12 4 (12 + 4) = None
      \<and> validation_spec 12 4 (12 + 1) = Some (WaveformGranularity 4)"
    using t [of "[]"] by simp
  from check_resolution_wsp_state g a b c d e f u1 u2 u3 u4 v show ?thesis
    by (intro conjI) simp_all
qed

text \<open>
  The conversions, read as integers: the float is truncated towards zero; within the 32-bit
  range the result wraps into the integer type, beyond it the result is 0. The shift then
  wraps in the same width.
\<close>

lemma sint_push_bit_word_of_int:
  "sint (push_bit s (word_of_int k :: 'a::len word)) = signed_take_bit (LENGTH('a) - 1) (k * 2 ^ s)"
proof -
  have "push_bit s (word_of_int k :: 'a word) = word_of_int (k * 2 ^ s)"
    by (simp add: push_bit_eq_mult)
  then show ?thesis
    by (simp only: sint_sbintrunc')
qed

lemma astype_int16_wrap:
  "astype_int16 y =
     word_of_int (if - (2 ^ 31) \<le> py_int y \<and> py_int y < 2 ^ 31 then py_int y else 0)"
  by (simp add: astype_int16_def c_int32_def)

lemma astype_int8_wrap:
  "astype_int8 y =
     word_of_int (if - (2 ^ 31) \<le> py_int y \<and> py_int y < 2 ^ 31 then py_int y else 0)"
  by (simp add: astype_int8_def c_int32_def)

lemma astype_uint16_wrap:
  "astype_uint16 y =
     word_of_int (if - (2 ^ 31) \<le> py_int y \<and> py_int y < 2 ^ 31 then py_int y else 0)"
  by (simp add: astype_uint16_def c_int32_def)

lemma sint_quantized16:
  "sint (push_bit s (astype_int16 y)) =
     (let t = py_int y
      in signed_take_bit 15 ((if - (2 ^ 31) \<le> t \<and> t < 2 ^ 31 then t else 0) * 2 ^ s))"
  unfolding astype_int16_wrap sint_push_bit_word_of_int by (simp add: Let_def)

lemma sint_quantized8:
  "sint (push_bit s (astype_int8 y)) =
     (let t = py_int y
      in signed_take_bit 7 ((if - (2 ^ 31) \<le> t \<and> t < 2 ^ 31 then t else 0) * 2 ^ s))"
  unfolding astype_int8_wrap sint_push_bit_word_of_int by (simp add: Let_def)

lemma sint_astype_int16:
  "sint (astype_int16 y) =
     (let t = py_int y
      in signed_take_bit 15 (if - (2 ^ 31) \<le> t \<and> t < 2 ^ 31 then t else 0))"
  unfolding astype_int16_wrap by (simp add: Let_def sint_sbintrunc')

lemma uint_astype_uint16:
  "uint (astype_uint16 y) =
     (let t = py_int y
      in take_bit 16 (if - (2 ^ 31) \<le> t \<and> t < 2 ^ 31 then t else 0))"
  unfolding astype_uint16_wrap by (simp add: Let_def uint_word_of_int_eq)

text \<open>
  The products of the multiplier 2047 with the samples used below. The literal \<open>1 / 2047\<close>
  is a binary64 number just under the quotient; its product with 2047 is just under 1 and
  rounds to 1.
\<close>

lemma fl_2047_half: "fl (2047 * (1 / 2)) = 2047 / 2"
  using fl_exact [of "2047 * (1 / 2)" 2047 "- 1"] by (simp add: pow2_def)

lemma fl_2047_one: "fl 2047 = 2047"
  using fl_exact [of 2047 2047 0] by (simp add: pow2_def)

lemma fl_2047_minus_one: "fl (- 2047) = - 2047"
  using fl_exact [of "- 2047" "- 2047" 0] by (simp add: pow2_def)

lemma fl_2047_large: "fl (2047 * 2097153) = 4292872191"
  using fl_exact [of "2047 * 2097153" 4292872191 0] by (simp add: pow2_def)

lemma fl_2047th: "fl (1 / 2047) = 17600780175361 / 2 ^ 55"
  using fl_eval [of "- 11" "1 / 2047"] by (simp add: pow2_def round_half_even_def)

lemma fl_2047_2047th: "fl (2047 * (17600780175361 / 2 ^ 55)) = 1"
  using fl_eval [of "- 1" "2047 * (17600780175361 / 2 ^ 55)"]
  by (simp add: pow2_def round_half_even_def)

lemma quantized_samples:
  "push_bit 4 (astype_int16 (fl (2047 * (1 / 2)))) = (16368 :: 16 word)"
  "push_bit 4 (astype_int16 (fl (2047 * 2097153))) = (0 :: 16 word)"
  "push_bit 4 (astype_int16 (fl (2047 * fl (1 / 2047)))) = (16 :: 16 word)"
  unfolding fl_2047_half fl_2047_large fl_2047th fl_2047_2047th
  by (simp_all add: astype_int16_def c_int32_def py_int_def)

text \<open>
  Claim C4 has the samples rounded to the nearest integer and the result wrapped into the
  integer type. The conversion to the integer array drops the fraction instead: in the 12-bit
  mode (\<open>binMult = 2047\<close>, \<open>binShift = 4\<close>) the sample 0.5 gives \<open>1023 << 4 = 16368\<close>,
  where rounding 1023.5 gives \<open>1024 << 4 = 16384\<close>. And the conversion wraps only within
  the 32-bit range: the sample 2097153.0 scales to 4292872191, beyond it, and gives 0, where
  wrapping (4292872191 is 2047 modulo \<open>2\<^sup>1\<^sup>6\<close>) gives \<open>2047 << 4 = 32752\<close>.
\<close>

theorem quantization_truncates_counterexample:
  "fst (M8190A_check_wfm \<lparr>gran = 48, minLen = 240, binMult = 8191, binShift = 2, res = ''wsp'',
        intFactor = None, idleGran = None\<rparr> (replicate 320 (1 / 2))) =
     Inr (replicate 320 16368)
   \<and> push_bit 4 (word_of_int (round (2047 * (1 / 2 :: real))) :: 16 word) = 16384
   \<and> (16368 :: 16 word) \<noteq> 16384
   \<and> fst (M8190A_check_wfm \<lparr>gran = 48, minLen = 240, binMult = 8191, binShift = 2,
        res = ''wsp'', intFactor = None, idleGran = None\<rparr> (replicate 320 2097153)) =
     Inr (replicate 320 0)
   \<and> push_bit 4 (word_of_int (round (2047 * (2097153 :: real))) :: 16 word) = 32752
   \<and> (0 :: 16 word) \<noteq> 32752"
proof -
  have a: "fst (M8190A_check_wfm \<lparr>gran = 48, minLen = 240, binMult = 8191, binShift = 2,
        res = ''wsp'', intFactor = None, idleGran = None\<rparr> (replicate 320 (1 / 2))) =
     Inr (replicate 320 16368)"
    unfolding M8190A_check_wfm_cases [OF check_resolution_wsp_state]
    using quantized_samples(1) by simp
  have b: "push_bit 4 (word_of_int (round (2047 * (1 / 2 :: real))) :: 16 word) = 16384"
    by (simp add: round_def)
  have c: "fst (M8190A_check_wfm \<lparr>gran = 48, minLen = 240, binMult = 8191, binShift = 2,
        res = ''wsp'', intFactor = None, idleGran = None\<rparr> (replicate 320 2097153)) =
     Inr (replicate 320 0)"
    unfolding M8190A_check_wfm_cases [OF check_resolution_wsp_state]
    using quantized_samples(2) by simp
  have d: "push_bit 4 (word_of_int (round (2047 * (2097153 :: real))) :: 16 word) = 32752"
    by simp
  from a b c d show ?thesis by simp
qed

text \<open>
  Claim C4 as amended. For a waveform that passes validation, \<open>check_wfm\<close> returns for every
  sample the binary64 product \<open>binMult * sample\<close> with its fraction dropped (towards zero,
  no rounding to the nearest), wrapped into the integer type when it lies within the 32-bit
  range and 0 beyond it, then shifted left by \<open>binShift\<close> bits in the native width, where
  the shift wraps in two's complement and never clamps: 16 bits on the \<open>M8190A\<close>, 8 bits on
  the \<open>M8195A\<close>, 16 bits and no shift on the \<open>VSG\<close>, 16 bits unsigned and no shift on the
  \<open>UXG\<close> (both swap the two bytes of every element on request). With \<open>binMult = 2047\<close>
  and \<open>binShift = 4\<close> a sample 1.0 gives \<open>2047 << 4\<close> and a sample -1.0 gives
  \<open>(-2047) << 4\<close>.
\<close>

theorem check_wfm_quantization:
  assumes "check_resolution self = (None, self')"
  shows
    "(validation_spec (minLen self') (gran self') (int (length wfm)) = None \<longrightarrow>
      (\<exists>q. fst (M8190A_check_wfm self wfm) = Inr q
          \<and> map sint q =
              map (\<lambda>x. let t = py_int (fl (real_of_int (binMult self') * x))
                       in signed_take_bit 15
                            ((if - (2 ^ 31) \<le> t \<and> t < 2 ^ 31 then t else 0)
                               * 2 ^ nat (binShift self'))) wfm
          \<and> (binMult self' = 2047 \<and> binShift self' = 4 \<longrightarrow>
                (\<forall>i < length wfm. (wfm ! i = 1 \<longrightarrow> sint (q ! i) = 2047 * 2 ^ 4)
                                 \<and> (wfm ! i = - 1 \<longrightarrow> sint (q ! i) = - 2047 * 2 ^ 4)))))
     \<and> (validation_spec (minLen M8195A_init) (gran M8195A_init) (int (length wfm)) = None \<longrightarrow>
      (\<exists>q. M8195A_check_wfm M8195A_init wfm = Inr q
          \<and> map sint q =
              map (\<lambda>x. let t = py_int (fl (real_of_int (binMult M8195A_init) * x))
                       in signed_take_bit 7
                            ((if - (2 ^ 31) \<le> t \<and> t < 2 ^ 31 then t else 0)
                               * 2 ^ nat (binShift M8195A_init))) wfm))
     \<and> (validation_spec (minLen VSG_init) (gran VSG_init) (int (length wfm)) = None \<longrightarrow>
      (\<exists>q. VSG_check_wfm VSG_init wfm False = Inr q
          \<and> VSG_check_wfm VSG_init wfm True = Inr (map byteswap q)
          \<and> map sint q =
              map (\<lambda>x. let t = py_int (fl (real_of_int (binMult VSG_init) * x))
                       in signed_take_bit 15
                            (if - (2 ^ 31) \<le> t \<and> t < 2 ^ 31 then t else 0)) wfm))
     \<and> (gran uxg \<noteq> 0 \<and> validation_spec (minLen uxg) (gran uxg) (int (length wfm)) = None \<longrightarrow>
      (\<exists>q. UXG_check_wfm uxg wfm False = Inr q
          \<and> UXG_check_wfm uxg wfm True = Inr (map byteswap q)
          \<and> map uint q =
              map (\<lambda>x. let t = py_int (fl (real_of_int (binMult uxg) * x))
                       in take_bit 16 (if - (2 ^ 31) \<le> t \<and> t < 2 ^ 31 then t else 0)) wfm))"
proof (intro conjI impI)
  assume "validation_spec (minLen self') (gran self') (int (length wfm)) = None"
  then have v: "\<not> int (length wfm) < minLen self'" "int (length wfm) mod gran self' = 0"
    by (auto simp: validation_spec_def split: if_splits)
  define q where "q = map (\<lambda>x. push_bit (nat (binShift self'))
                      (astype_int16 (fl (real_of_int (binMult self') * x)))) wfm"
  have r: "fst (M8190A_check_wfm self wfm) = Inr q"
    using v by (simp add: M8190A_check_wfm_cases [OF assms] q_def)
  have m: "map sint q =
      map (\<lambda>x. let t = py_int (fl (real_of_int (binMult self') * x))
               in signed_take_bit 15
                    ((if - (2 ^ 31) \<le> t \<and> t < 2 ^ 31 then t else 0)
                       * 2 ^ nat (binShift self'))) wfm"
    by (simp add: q_def sint_quantized16)
  have p: "(wfm ! i = 1 \<longrightarrow> sint (q ! i) = 2047 * 2 ^ 4)
         \<and> (wfm ! i = - 1 \<longrightarrow> sint (q ! i) = - 2047 * 2 ^ 4)"
    if b: "binMult self' = 2047 \<and> binShift self' = 4" and i: "i < length wfm" for i
  proof -
    have "sint (q ! i) = (let t = py_int (fl (2047 * (wfm ! i)))
               in signed_take_bit 15 ((if - (2 ^ 31) \<le> t \<and> t < 2 ^ 31 then t else 0) * 2 ^ 4))"
      using i b by (simp add: q_def sint_quantized16)
    then show ?thesis
      using fl_2047_one fl_2047_minus_one
      by (auto simp: py_int_def signed_take_bit_eq_take_bit_shift take_bit_eq_mod)
  qed
  from r m p show "\<exists>q. fst (M8190A_check_wfm self wfm) = Inr q
          \<and> map sint q =
              map (\<lambda>x. let t = py_int (fl (real_of_int (binMult self') * x))
                       in signed_take_bit 15
                            ((if - (2 ^ 31) \<le> t \<and> t < 2 ^ 31 then t else 0)
                               * 2 ^ nat (binShift self'))) wfm
          \<and> (binMult self' = 2047 \<and> binShift self' = 4 \<longrightarrow>
                (\<forall>i < length wfm. (wfm ! i = 1 \<longrightarrow> sint (q ! i) = 2047 * 2 ^ 4)
                                 \<and> (wfm ! i = - 1 \<longrightarrow> sint (q ! i) = - 2047 * 2 ^ 4)))"
    by blast
next
  assume "validation_spec (minLen M8195A_init) (gran M8195A_init) (int (length wfm)) = None"
  then have v: "\<not> int (length wfm) < minLen M8195A_init"
    "int (length wfm) mod gran M8195A_init = 0"
    by (auto simp: validation_spec_def split: if_splits)
  have g: "gran M8195A_init \<noteq> 0"
    by (simp add: init_fields)
  have "M8195A_check_wfm M8195A_init wfm =
      Inr (map (\<lambda>x. push_bit (nat (binShift M8195A_init))
                      (astype_int8 (fl (real_of_int (binMult M8195A_init) * x)))) wfm)"
    using v by (simp add: M8195A_check_wfm_cases [OF g])
  then show "\<exists>q. M8195A_check_wfm M8195A_init wfm = Inr q
          \<and> map sint q =
              map (\<lambda>x. let t = py_int (fl (real_of_int (binMult M8195A_init) * x))
                       in signed_take_bit 7
                            ((if - (2 ^ 31) \<le> t \<and> t < 2 ^ 31 then t else 0)
                               * 2 ^ nat (binShift M8195A_init))) wfm"
    by (simp add: sint_quantized8)
next
  assume "validation_spec (minLen VSG_init) (gran VSG_init) (int (length wfm)) = None"
  then have v: "\<not> int (length wfm) < minLen VSG_init" "int (length wfm) mod gran VSG_init = 0"
    by (auto simp: validation_spec_def split: if_splits)
  have g: "gran VSG_init \<noteq> 0"
    by (simp add: init_fields)
  have "VSG_check_wfm VSG_init wfm False =
      Inr (map (\<lambda>x. astype_int16 (fl (real_of_int (binMult VSG_init) * x))) wfm)"
    and "VSG_check_wfm VSG_init wfm True =
      Inr (map byteswap (map (\<lambda>x. astype_int16 (fl (real_of_int (binMult VSG_init) * x))) wfm))"
    using v by (simp_all add: VSG_check_wfm_cases [OF g])
  then show "\<exists>q. VSG_check_wfm VSG_init wfm False = Inr q
          \<and> VSG_check_wfm VSG_init wfm True = Inr (map byteswap q)
          \<and> map sint q =
              map (\<lambda>x. let t = py_int (fl (real_of_int (binMult VSG_init) * x))
                       in signed_take_bit 15
                            (if - (2 ^ 31) \<le> t \<and> t < 2 ^ 31 then t else 0)) wfm"
    by (simp add: sint_astype_int16)
next
  assume "gran uxg \<noteq> 0 \<and> validation_spec (minLen uxg) (gran uxg) (int (length wfm)) = None"
  then have g: "gran uxg \<noteq> 0"
    and v: "\<not> int (length wfm) < minLen uxg" "int (length wfm) mod gran uxg = 0"
    by (auto simp: validation_spec_def split: if_splits)
  have "UXG_check_wfm uxg wfm False =
      Inr (map (\<lambda>x. astype_uint16 (fl (real_of_int (binMult uxg) * x))) wfm)"
    and "UXG_check_wfm uxg wfm True =
      Inr (map byteswap (map (\<lambda>x. astype_uint16 (fl (real_of_int (binMult uxg) * x))) wfm))"
    using v by (simp_all add: UXG_check_wfm_cases [OF g])
  then show "\<exists>q. UXG_check_wfm uxg wfm False = Inr q
          \<and> UXG_check_wfm uxg wfm True = Inr (map byteswap q)
          \<and> map uint q =
              map (\<lambda>x. let t = py_int (fl (real_of_int (binMult uxg) * x))
                       in take_bit 16 (if - (2 ^ 31) \<le> t \<and> t < 2 ^ 31 then t else 0)) wfm"
    by (simp add: uint_astype_uint16)
qed

lemma fl_multipliers:
  "fl 127 = 127" "fl (- 127) = - 127" "fl 32767 = 32767" "fl (- 32767) = - 32767"
  using fl_exact [of 127 127 0] fl_exact [of "- 127" "- 127" 0]
    fl_exact [of 32767 32767 0] fl_exact [of "- 32767" "- 32767" 0]
  by (simp_all add: pow2_def)

text \<open>
  The theorem at work. On the \<open>M8190A\<close> in the 12-bit mode, 317 samples of 1.0 followed
  by -1.0, by the binary64 number of \<open>1 / 2047\<close> (whose product with 2047 rounds to 1) and
  by 2097153.0 (whose product lies beyond the 32-bit range); on the three other instruments,
  samples 1.0 followed by one sample -1.0, which the unsigned type of the \<open>UXG\<close> wraps to
  32769.
\<close>

theorem check_wfm_quantization_witness:
  "check_resolution \<lparr>gran = 48, minLen = 240, binMult = 8191, binShift = 2, res = ''wsp'',
       intFactor = None, idleGran = None\<rparr> =
     (None, \<lparr>gran = 64, minLen = 320, binMult = 2047, binShift = 4, res = ''wsp'',
       intFactor = None, idleGran = None\<rparr>)
   \<and> validation_spec 320 64
        (int (length (replicate 317 (1::real) @ [- 1, fl (1 / 2047), 2097153]))) = None
   \<and> (\<exists>q. fst (M8190A_check_wfm \<lparr>gran = 48, minLen = 240, binMult = 8191, binShift = 2,
          res = ''wsp'', intFactor = None, idleGran = None\<rparr>
          (replicate 317 1 @ [- 1, fl (1 / 2047), 2097153])) = Inr q
        \<and> map sint q = replicate 317 (2047 * 2 ^ 4) @ [- 2047 * 2 ^ 4, 16, 0])
   \<and> validation_spec (minLen M8195A_init) (gran M8195A_init)
        (int (length (replicate 255 (1::real) @ [- 1]))) = None
   \<and> (\<exists>q. M8195A_check_wfm M8195A_init (replicate 255 1 @ [- 1]) = Inr q
        \<and> map sint q = replicate 255 127 @ [- 127])
   \<and> validation_spec (minLen VSG_init) (gran VSG_init)
        (int (length (replicate 59 (1::real) @ [- 1]))) = None
   \<and> (\<exists>q. VSG_check_wfm VSG_init (replicate 59 1 @ [- 1]) False = Inr q
        \<and> VSG_check_wfm VSG_init (replicate 59 1 @ [- 1]) True = Inr (map byteswap q)
        \<and> map sint q = replicate 59 32767 @ [- 32767])
   \<and> gran (UXG_init 4 12) \<noteq> 0
   \<and> validation_spec (minLen (UXG_init 4 12)) (gran (UXG_init 4 12))
        (int (length (replicate 11 (1::real) @ [- 1]))) = None
   \<and> (\<exists>q. UXG_check_wfm (UXG_init 4 12) (replicate 11 1 @ [- 1]) False = Inr q
        \<and> UXG_check_wfm (UXG_init 4 12) (replicate 11 1 @ [- 1]) True = Inr (map byteswap q)
        \<and> map uint q = replicate 11 32767 @ [32769])"
proof -
  note t = check_wfm_quantization [OF check_resolution_wsp_state]
  have v1: "validation_spec 320 64
        (int (length (replicate 317 (1::real) @ [- 1, fl (1 / 2047), 2097153]))) = None"
    by (simp add: validation_spec_def)
  have v2: "validation_spec (minLen M8195A_init) (gran M8195A_init)
        (int (length (replicate 255 (1::real) @ [- 1]))) = None"
    by (simp add: validation_spec_def init_fields)
  have v3: "validation_spec (minLen VSG_init) (gran VSG_init)
        (int (length (replicate 59 (1::real) @ [- 1]))) = None"
    by (simp add: validation_spec_def init_fields)
  have v4: "gran (UXG_init 4 12) \<noteq> 0"
    "validation_spec (minLen (UXG_init 4 12)) (gran (UXG_init 4 12))
        (int (length (replicate 11 (1::real) @ [- 1]))) = None"
    by (simp_all add: validation_spec_def UXG_init_fields)
  have s: "signed_take_bit 15 (2047 * 2 ^ 4 :: int) = 2047 * 2 ^ 4"
    "signed_take_bit 15 (- 2047 * 2 ^ 4 :: int) = - 2047 * 2 ^ 4"
    "signed_take_bit 15 (1 * 2 ^ 4 :: int) = 16"
    "signed_take_bit 7 (127 :: int) = 127" "signed_take_bit 7 (- 127 :: int) = - 127"
    "signed_take_bit 15 (32767 :: int) = 32767" "signed_take_bit 15 (- 32767 :: int) = - 32767"
    "take_bit 16 (32767 :: int) = 32767" "take_bit 16 (- 32767 :: int) = 32769"
    by (simp_all add: signed_take_bit_eq_take_bit_shift take_bit_eq_mod)
  from t [of "replicate 317 1 @ [- 1, fl (1 / 2047), 2097153]"] v1 obtain q1 where
    q1: "fst (M8190A_check_wfm \<lparr>gran = 48, minLen = 240, binMult = 8191, binShift = 2,
          res = ''wsp'', intFactor = None, idleGran = None\<rparr>
          (replicate 317 1 @ [- 1, fl (1 / 2047), 2097153])) = Inr q1"
    and m1: "map sint q1 =
          map (\<lambda>x. let t = py_int (fl (real_of_int 2047 * x))
                   in signed_take_bit 15
                        ((if - (2 ^ 31) \<le> t \<and> t < 2 ^ 31 then t else 0) * 2 ^ nat 4))
            (replicate 317 1 @ [- 1, fl (1 / 2047), 2097153])"
    by auto
  have r1: "map sint q1 = replicate 317 (2047 * 2 ^ 4) @ [- 2047 * 2 ^ 4, 16, 0]"
    unfolding m1 fl_2047th
    using fl_2047_one fl_2047_minus_one fl_2047_2047th fl_2047_large s
    by (simp add: py_int_def)
  from t [of "replicate 255 1 @ [- 1]"] v2 obtain q2 where
    q2: "M8195A_check_wfm M8195A_init (replicate 255 1 @ [- 1]) = Inr q2"
    and m2: "map sint q2 =
          map (\<lambda>x. let t = py_int (fl (real_of_int (binMult M8195A_init) * x))
                   in signed_take_bit 7
                        ((if - (2 ^ 31) \<le> t \<and> t < 2 ^ 31 then t else 0)
                           * 2 ^ nat (binShift M8195A_init)))
            (replicate 255 1 @ [- 1])"
    by auto
  have r2: "map sint q2 = replicate 255 127 @ [- 127]"
    unfolding m2 init_fields using fl_multipliers s by (simp add: py_int_def)
  from t [of "replicate 59 1 @ [- 1]"] v3 obtain q3 where
    q3: "VSG_check_wfm VSG_init (replicate 59 1 @ [- 1]) False = Inr q3"
      "VSG_check_wfm VSG_init (replicate 59 1 @ [- 1]) True = Inr (map byteswap q3)"
    and m3: "map sint q3 =
          map (\<lambda>x. let t = py_int (fl (real_of_int (binMult VSG_init) * x))
                   in signed_take_bit 15 (if - (2 ^ 31) \<le> t \<and> t < 2 ^ 31 then t else 0))
            (replicate 59 1 @ [- 1])"
    by auto
  have r3: "map sint q3 = replicate 59 32767 @ [- 32767]"
    unfolding m3 init_fields using fl_multipliers s by (simp add: py_int_def)
  from t [of "replicate 11 1 @ [- 1]", where uxg = "UXG_init 4 12"] v4 obtain q4 where
    q4: "UXG_check_wfm (UXG_init 4 12) (replicate 11 1 @ [- 1]) False = Inr q4"
      "UXG_check_wfm (UXG_init 4 12) (replicate 11 1 @ [- 1]) True = Inr (map byteswap q4)"
    and m4: "map uint q4 =
          map (\<lambda>x. let t = py_int (fl (real_of_int (binMult (UXG_init 4 12)) * x))
                   in take_bit 16 (if - (2 ^ 31) \<le> t \<and> t < 2 ^ 31 then t else 0))
            (replicate 11 1 @ [- 1])"
    by auto
  have r4: "map uint q4 = replicate 11 32767 @ [32769]"
    unfolding m4 UXG_init_fields using fl_multipliers s by (simp add: py_int_def)
  from check_resolution_wsp_state v1 q1 r1 v2 q2 r2 v3 q3 r3 v4 q4 r4 show ?thesis
    by blast
qed

text \<open>
  Claim C6 asks every unrecognised mode to raise and no call to leave the constants half
  updated. An interpolated mode whose factor is none of 3, 12, 24, 48 returns normally:
  after \<open>intx3\<close>, the mode \<open>intx5\<close> sets \<open>intFactor\<close> to 5 and keeps the \<open>idleGran\<close> of
  factor 3. A mode \<open>intx\<close> with no factor raises the \<open>ValueError\<close> of \<open>int('')\<close> after the
  four constants of the interpolated modes have been stored, \<open>intFactor\<close> and \<open>idleGran\<close>
  untouched.
\<close>

theorem check_resolution_unrecognized_factor:
  "check_resolution \<lparr>gran = 24, minLen = 120, binMult = 16383, binShift = 1, res = ''intx5'',
       intFactor = Some 3, idleGran = Some 8\<rparr> =
     (None, \<lparr>gran = 24, minLen = 120, binMult = 16383, binShift = 1, res = ''intx5'',
       intFactor = Some 5, idleGran = Some 8\<rparr>)
   \<and> check_resolution \<lparr>gran = 64, minLen = 320, binMult = 2047, binShift = 4, res = ''intx'',
       intFactor = None, idleGran = None\<rparr> =
     (Some (ValueError ''invalid literal for int() with base 10''),
      \<lparr>gran = 24, minLen = 120, binMult = 16383, binShift = 1, res = ''intx'',
       intFactor = None, idleGran = None\<rparr>)"
  by (simp add: check_resolution_def contains_intx split_last_intx5 split_last_intx
      int_of_str_5 int_of_str_empty)

section \<open>Barker codes\<close>

lemma barkerCodes_lookup:
  assumes "map_of barkerCodes code = Some chips"
  shows "set chips \<subseteq> {1, - 1}" "length chips \<in> {2, 3, 4, 5, 7, 11, 13}"
  using assms by (auto simp: barkerCodes_def split: if_splits)

text \<open>
  \<open>np.pi / 2\<close> and its products with the chips \<open>1.0\<close> and \<open>-1.0\<close> are binary64 numbers:
  the phases are \<open>np.pi / 2\<close> and \<open>-np.pi / 2\<close> with no rounding.
\<close>

lemma fl_half_pi: "fl (np_pi / 2) = np_pi / 2"
  using fl_exact [of "np_pi / 2" 884279719003555 "- 49"] by (simp add: np_pi_def pow2_def)

lemma fl_neg_half_pi: "fl (- (np_pi / 2)) = - (np_pi / 2)"
  using fl_exact [of "- (np_pi / 2)" "- 884279719003555" "- 49"]
  by (simp add: np_pi_def pow2_def)

lemma fl_phase:
  "fl (fl (np_pi / 2) * 1) = np_pi / 2" "fl (fl (np_pi / 2) * - 1) = - (np_pi / 2)"
  by (simp_all add: fl_half_pi fl_neg_half_pi)

lemma barker_mod_known:
  assumes "map_of barkerCodes code = Some chips"
    and "0 \<le> py_int (fl (fl (len / real (length chips)) * fs))"
  shows "barker_mod len fs code =
     Inr (concat (map (\<lambda>p. replicate (nat (py_int (fl (fl (len / real (length chips)) * fs))))
                             (if p = 1 then np_pi / 2 else - (np_pi / 2))) chips))"
proof -
  have e: "map (\<lambda>b. fl (fl (np_pi / 2) * b))
          (concat (map (\<lambda>p. replicate n (real_of_int p)) chips)) =
        concat (map (\<lambda>p. replicate n (if p = 1 then np_pi / 2 else - (np_pi / 2))) chips)" for n
    using barkerCodes_lookup(1) [OF assms(1)]
    by (induction chips) (auto simp: map_replicate_const fl_half_pi fl_neg_half_pi)
  have "barker_mod len fs code =
      Inr (map (\<lambda>b. fl (fl (np_pi / 2) * b))
        (concat (map (\<lambda>p. replicate (nat (py_int (fl (fl (len / real (length chips)) * fs))))
                               (real_of_int p)) chips)))"
    using assms by (simp add: barker_mod_def codeSamples_def Let_def)
  then show ?thesis
    unfolding e .
qed

lemma barker_mod_negative:
  assumes "map_of barkerCodes code = Some chips"
    and "py_int (fl (fl (len / real (length chips)) * fs)) < 0"
  shows "barker_mod len fs code = Inl (ValueError ''negative dimensions are not allowed'')"
  using assms by (simp add: barker_mod_def codeSamples_def)

lemma barker_mod_unknown:
  "map_of barkerCodes code = None \<Longrightarrow> barker_mod len fs code = Inl (KeyError code)"
  by (simp add: barker_mod_def)

lemma barker_generator_unknown:
  "map_of barkerCodes code = None \<Longrightarrow>
     barker_generator np_exp len fs code zeroLast = Inl (KeyError code)"
  by (simp add: barker_generator_def barker_mod_unknown)

lemma barker_generator_negative:
  assumes "map_of barkerCodes code = Some chips"
    and "py_int (fl (fl (len / real (length chips)) * fs)) < 0"
  shows "barker_generator np_exp len fs code zeroLast =
     Inl (ValueError ''negative dimensions are not allowed'')"
  by (simp add: barker_generator_def barker_mod_negative [OF assms])

lemma barker_generator_iq:
  assumes "barker_mod len fs code = Inr md"
  shows "barker_generator np_exp len fs code False =
       Inr (map (\<lambda>m. Re (np_exp (Complex 0 m))) md, map (\<lambda>m. Im (np_exp (Complex 0 m))) md)"
    and "barker_generator np_exp len fs code True =
       (if md = [] then Inl IndexError
        else Inr (map (\<lambda>m. Re (np_exp (Complex 0 m))) (butlast md) @ [0],
                  map (\<lambda>m. Im (np_exp (Complex 0 m))) (butlast md) @ [0]))"
  using assms by (simp_all add: barker_generator_def Let_def comp_def map_butlast)

lemma b2_lookup: "map_of barkerCodes ''b2'' = Some [1, - 1]"
  by (simp add: barkerCodes_def)

lemma b3_lookup: "map_of barkerCodes ''b3'' = Some [1, 1, - 1]"
  by (simp add: barkerCodes_def)

text \<open>
  The chip lengths of the examples. The literal \<open>2e-6\<close> is a binary64 number just under 2
  microseconds; its half is exact and the product with \<open>1e6\<close>, just under 1, rounds to 1.
  The literal \<open>3e-6\<close> is just over 3 microseconds; the product of its half with \<open>1e6\<close>
  rounds to 1.5, and its third rounds to the binary64 number of \<open>1e-6\<close>.
\<close>

lemma fl_2us: "fl (2 / 1000000) = 4722366482869645 / 2 ^ 71"
  using fl_eval [of "- 19" "2 / 1000000"] by (simp add: pow2_def round_half_even_def)

lemma fl_3us: "fl (3 / 1000000) = 1770887431076117 / 2 ^ 69"
  using fl_eval [of "- 19" "3 / 1000000"] by (simp add: pow2_def round_half_even_def)

lemma fl_1us_1MHz: "fl (4722366482869645 / 2 ^ 72 * 1000000) = 1"
  using fl_eval [of "- 1" "4722366482869645 / 2 ^ 72 * 1000000"]
  by (simp add: pow2_def round_half_even_def)

lemma codeSamples_2us_b2: "py_int (fl (fl (fl (2 / 1000000) / real 2) * 1000000)) = 1"
proof -
  have b: "fl (4722366482869645 / 2 ^ 71 / real 2) = 4722366482869645 / 2 ^ 72"
    using fl_exact [of "4722366482869645 / 2 ^ 71 / real 2" 4722366482869645 "- 72"]
    by (simp add: pow2_def)
  show ?thesis
    unfolding fl_2us b fl_1us_1MHz by (simp add: py_int_def)
qed

lemma codeSamples_3us_b2: "py_int (fl (fl (fl (3 / 1000000) / real 2) * 1000000)) = 1"
proof -
  have b: "fl (1770887431076117 / 2 ^ 69 / real 2) = 1770887431076117 / 2 ^ 70"
    using fl_exact [of "1770887431076117 / 2 ^ 69 / real 2" 1770887431076117 "- 70"]
    by (simp add: pow2_def)
  have c: "fl (1770887431076117 / 2 ^ 70 * 1000000) = 3 / 2"
    using fl_eval [of 0 "1770887431076117 / 2 ^ 70 * 1000000"]
    by (simp add: pow2_def round_half_even_def)
  show ?thesis
    unfolding fl_3us b c by (simp add: py_int_def)
qed

lemma codeSamples_3us_b3: "py_int (fl (fl (fl (3 / 1000000) / real 3) * 1000000)) = 1"
proof -
  have b: "fl (1770887431076117 / 2 ^ 69 / real 3) = 4722366482869645 / 2 ^ 72"
    using fl_eval [of "- 20" "1770887431076117 / 2 ^ 69 / real 3"]
    by (simp add: pow2_def round_half_even_def)
  show ?thesis
    unfolding fl_3us b fl_1us_1MHz by (simp add: py_int_def)
qed

lemma length_b2: "length [1, - 1 :: int] = 2"
  by simp

lemma length_b3: "length [1, 1, - 1 :: int] = 3"
  by simp

lemma barker_b2_two_samples:
  "barker_mod (fl (2 / 1000000)) 1000000 ''b2'' = Inr [np_pi / 2, - (np_pi / 2)]"
proof -
  have "0 \<le> py_int (fl (fl (fl (2 / 1000000) / real (length [1, - 1 :: int])) * 1000000))"
    unfolding length_b2 codeSamples_2us_b2 by simp
  from barker_mod_known [OF b2_lookup this] show ?thesis
    unfolding length_b2 codeSamples_2us_b2 by simp
qed

lemma barker_b2_three_microseconds:
  "barker_mod (fl (3 / 1000000)) 1000000 ''b2'' = Inr [np_pi / 2, - (np_pi / 2)]"
proof -
  have "0 \<le> py_int (fl (fl (fl (3 / 1000000) / real (length [1, - 1 :: int])) * 1000000))"
    unfolding length_b2 codeSamples_3us_b2 by simp
  from barker_mod_known [OF b2_lookup this] show ?thesis
    unfolding length_b2 codeSamples_3us_b2 by simp
qed

lemma np_pi_pos: "0 < np_pi"
  by (simp add: np_pi_def)

text \<open>
  Claim C7 puts chip \<open>+1\<close> at phase \<open>0\<close> and chip \<open>-1\<close> at phase \<open>\<pi>\<close>, and holds each chip
  for \<open>round(duration / codeLength * sampleRate)\<close> samples. The generator multiplies the
  chips by \<open>np.pi / 2\<close> and takes \<open>int(...)\<close> of the chip length. For the two-chip code,
  \<open>2e-6\<close> and 1 MHz it returns the phases \<open>np.pi / 2\<close> and \<open>-np.pi / 2\<close>, where the claim
  has \<open>0\<close> and \<open>\<pi>\<close>; for the two-chip code, \<open>3e-6\<close> and 1 MHz it returns 2 samples,
  where the claim has 4.
\<close>

theorem barker_phase_counterexample:
  "barker_mod (fl (2 / 1000000)) 1000000 ''b2'' = Inr [np_pi / 2, - (np_pi / 2)]
   \<and> barker_mod_spec (fl (2 / 1000000)) 1000000 ''b2'' = Inr [0, pi]
   \<and> np_pi / 2 \<noteq> (0::real)
   \<and> barker_mod (fl (3 / 1000000)) 1000000 ''b2'' = Inr [np_pi / 2, - (np_pi / 2)]
   \<and> barker_mod_spec (fl (3 / 1000000)) 1000000 ''b2'' = Inr [0, 0, pi, pi]
   \<and> length [np_pi / 2, - (np_pi / 2)] \<noteq> length [0, 0, pi, pi]"
proof -
  have a: "barker_mod_spec (fl (2 / 1000000)) 1000000 ''b2'' = Inr [0, pi]"
    unfolding fl_2us
    by (simp add: barker_mod_spec_def b2_lookup round_def)
  have b: "barker_mod_spec (fl (3 / 1000000)) 1000000 ''b2'' = Inr [0, 0, pi, pi]"
    unfolding fl_3us
    by (simp add: barker_mod_spec_def b2_lookup round_def numeral_2_eq_2)
  have c: "np_pi / 2 \<noteq> (0::real)"
    using np_pi_pos by simp
  from barker_b2_two_samples barker_b2_three_microseconds a b c show ?thesis
    by simp
qed

text \<open>
  Claim C7 as amended. For every code of the catalog (lengths 2, 3, 4, 5, 7, 11, 13, chips
  \<open>+1\<close> and \<open>-1\<close>) the generator holds each chip for
  \<open>int(duration / codeLength * sampleRate)\<close> samples (the binary64 quotient and product,
  the fraction dropped); when that number is not negative it puts chip \<open>+1\<close> at phase
  \<open>np.pi / 2\<close> and chip \<open>-1\<close> at phase \<open>-np.pi / 2\<close> (the two phases differ by exactly
  \<open>np.pi\<close>, the binary64 number numpy has for \<open>\<pi>\<close>), concatenates the chips in code order,
  and returns the real and imaginary parts of \<open>np.exp\<close> of \<open>1j\<close> times these phases, the
  last sample replaced by 0 on request (an \<open>IndexError\<close> when there is no sample); a
  negative chip length raises \<open>ValueError\<close>. With the two-chip code, \<open>2e-6\<close> and 1 MHz it
  yields exactly 2 samples, at \<open>np.pi / 2\<close> and \<open>-np.pi / 2\<close>. An unknown code name raises
  the \<open>KeyError\<close> of the catalog lookup.
\<close>

theorem barker_generator_phases:
  "(map_of barkerCodes code = None \<longrightarrow>
      barker_generator np_exp len fs code zeroLast = Inl (KeyError code))
   \<and> (\<forall>chips. map_of barkerCodes code = Some chips
          \<and> 0 \<le> py_int (fl (fl (len / real (length chips)) * fs)) \<longrightarrow>
        barker_mod len fs code =
          Inr (concat (map (\<lambda>p. replicate (nat (py_int (fl (fl (len / real (length chips)) * fs))))
                                  (if p = 1 then np_pi / 2 else - (np_pi / 2))) chips))
        \<and> set chips \<subseteq> {1, - 1}
        \<and> length chips \<in> {2, 3, 4, 5, 7, 11, 13}
        \<and> (\<exists>md. barker_mod len fs code = Inr md
              \<and> barker_generator np_exp len fs code False =
                  Inr (map (\<lambda>m. Re (np_exp (Complex 0 m))) md,
                       map (\<lambda>m. Im (np_exp (Complex 0 m))) md)
              \<and> barker_generator np_exp len fs code True =
                  (if md = [] then Inl IndexError
                   else Inr (map (\<lambda>m. Re (np_exp (Complex 0 m))) (butlast md) @ [0],
                             map (\<lambda>m. Im (np_exp (Complex 0 m))) (butlast md) @ [0]))))
   \<and> (\<forall>chips. map_of barkerCodes code = Some chips
          \<and> py_int (fl (fl (len / real (length chips)) * fs)) < 0 \<longrightarrow>
        barker_generator np_exp len fs code zeroLast =
          Inl (ValueError ''negative dimensions are not allowed''))
   \<and> np_pi / 2 - (- (np_pi / 2)) = np_pi
   \<and> barker_mod (fl (2 / 1000000)) 1000000 ''b2'' = Inr [np_pi / 2, - (np_pi / 2)]"
proof (intro conjI allI impI)
  show "barker_generator np_exp len fs code zeroLast = Inl (KeyError code)"
    if "map_of barkerCodes code = None"
    using that by (rule barker_generator_unknown)
next
  fix chips
  assume a: "map_of barkerCodes code = Some chips
          \<and> 0 \<le> py_int (fl (fl (len / real (length chips)) * fs))"
  then show m: "barker_mod len fs code =
          Inr (concat (map (\<lambda>p. replicate (nat (py_int (fl (fl (len / real (length chips)) * fs))))
                                  (if p = 1 then np_pi / 2 else - (np_pi / 2))) chips))"
    by (intro barker_mod_known) simp_all
  show "set chips \<subseteq> {1, - 1}" "length chips \<in> {2, 3, 4, 5, 7, 11, 13}"
    using a barkerCodes_lookup by blast+
  show "\<exists>md. barker_mod len fs code = Inr md
              \<and> barker_generator np_exp len fs code False =
                  Inr (map (\<lambda>m. Re (np_exp (Complex 0 m))) md,
                       map (\<lambda>m. Im (np_exp (Complex 0 m))) md)
              \<and> barker_generator np_exp len fs code True =
                  (if md = [] then Inl IndexError
                   else Inr (map (\<lambda>m. Re (np_exp (Complex 0 m))) (butlast md) @ [0],
                             map (\<lambda>m. Im (np_exp (Complex 0 m))) (butlast md) @ [0]))"
    using barker_generator_iq [OF m] m by blast
next
  fix chips
  assume "map_of barkerCodes code = Some chips
          \<and> py_int (fl (fl (len / real (length chips)) * fs)) < 0"
  then have "map_of barkerCodes code = Some chips"
    and "py_int (fl (fl (len / real (length chips)) * fs)) < 0"
    by simp_all
  then show "barker_generator np_exp len fs code zeroLast =
          Inl (ValueError ''negative dimensions are not allowed'')"
    by (rule barker_generator_negative)
next
  show "np_pi / 2 - (- (np_pi / 2)) = np_pi" by simp
  show "barker_mod (fl (2 / 1000000)) 1000000 ''b2'' = Inr [np_pi / 2, - (np_pi / 2)]"
    by (rule barker_b2_two_samples)
qed

text \<open>
  The theorem at work, with the exact exponential for \<open>np.exp\<close>: the three-chip code over
  \<open>3e-6\<close> at 1 MHz (one sample per chip), a name that is not in the catalog, and a negative
  duration.
\<close>

theorem barker_generator_phases_witness:
  "map_of barkerCodes ''b3'' = Some [1, 1, - 1]
   \<and> 0 \<le> py_int (fl (fl (fl (3 / 1000000) / real (length [1, 1, - 1 :: int])) * 1000000))
   \<and> barker_mod (fl (3 / 1000000)) 1000000 ''b3'' = Inr [np_pi / 2, np_pi / 2, - (np_pi / 2)]
   \<and> map_of barkerCodes ''bx'' = None
   \<and> barker_generator exp (fl (3 / 1000000)) 1000000 ''bx'' False = Inl (KeyError ''bx'')
   \<and> py_int (fl (fl (- 1 / real (length [1, 1, - 1 :: int])) * 3)) < 0
   \<and> barker_generator exp (- 1) 3 ''b3'' False =
       Inl (ValueError ''negative dimensions are not allowed'')"
proof -
  note t = barker_generator_phases [of "''b3''" exp "fl (3 / 1000000)" 1000000 False]
  note u = barker_generator_phases [of "''bx''" exp "fl (3 / 1000000)" 1000000 False]
  note w = barker_generator_phases [of "''b3''" exp "- 1" 3 False]
  have n: "map_of barkerCodes ''bx'' = None"
    by (simp add: barkerCodes_def)
  have c: "py_int (fl (fl (fl (3 / 1000000) / real (length [1, 1, - 1 :: int])) * 1000000)) = 1"
    unfolding length_b3 by (rule codeSamples_3us_b3)
  have p: "0 \<le> py_int (fl (fl (fl (3 / 1000000) / real (length [1, 1, - 1 :: int])) * 1000000))"
    unfolding c by simp
  have "barker_mod (fl (3 / 1000000)) 1000000 ''b3'' =
      Inr (concat (map (\<lambda>p. replicate
         (nat (py_int (fl (fl (fl (3 / 1000000) / real (length [1, 1, - 1 :: int])) * 1000000))))
         (if p = 1 then np_pi / 2 else - (np_pi / 2))) [1, 1, - 1 :: int]))"
    using t b3_lookup p by blast
  then have r: "barker_mod (fl (3 / 1000000)) 1000000 ''b3'' =
      Inr [np_pi / 2, np_pi / 2, - (np_pi / 2)]"
    unfolding c by simp
  have k: "barker_generator exp (fl (3 / 1000000)) 1000000 ''bx'' False = Inl (KeyError ''bx'')"
    using u n by blast
  have d1: "fl (- 1 / real 3) = - (6004799503160661 / 2 ^ 54)"
    using fl_eval [of "- 2" "- 1 / real 3"] by (simp add: pow2_def round_half_even_def)
  have d2: "fl (- (6004799503160661 / 2 ^ 54) * 3) = - 1"
    using fl_eval [of "- 1" "- (6004799503160661 / 2 ^ 54) * 3"]
    by (simp add: pow2_def round_half_even_def)
  have ng: "py_int (fl (fl (- 1 / real (length [1, 1, - 1 :: int])) * 3)) < 0"
    unfolding length_b3 d1 d2 by (simp add: py_int_def)
  have v: "barker_generator exp (- 1) 3 ''b3'' False =
       Inl (ValueError ''negative dimensions are not allowed'')"
    using w b3_lookup ng by blast
  from b3_lookup p r n k ng v show ?thesis
    by blast
qed

section \<open>Constellation maps\<close>

lemma char_of_digits: "char_of (48::nat) = CHR ''0''" "char_of (49::nat) = CHR ''1''"
  by code_simp+

lemma str_int_bits: "str_int 0 = ''0''" "str_int 1 = ''1''"
  by (simp_all add: str_int_def char_of_digits)

lemma dist_Complex_eq_2:
  "dist (Complex a b) (Complex c d) = 2 \<longleftrightarrow> (a - c)\<^sup>2 + (b - d)\<^sup>2 = 4"
proof -
  have "dist (Complex a b) (Complex c d) = sqrt ((a - c)\<^sup>2 + (b - d)\<^sup>2)"
    by (simp add: dist_norm cmod_def)
  moreover have "sqrt x = 2 \<longleftrightarrow> x = 4" for x :: real
    using real_sqrt_eq_iff [of x 4] by simp
  ultimately show ?thesis by simp
qed

lemma qam16_modulator_default:
  "qam16_modulator data None =
     map_symbols qamMap ''Invalid 16 QAM symbol.''
       (map (\<lambda>(d0, d1, d2, d3). str_int d0 @ str_int d1 @ str_int d2 @ str_int d3)
          (zip (stride 4 data) (zip (stride 4 (drop 1 data))
             (zip (stride 4 (drop 2 data)) (stride 4 (drop 3 data))))))"
  by (simp add: qam16_modulator_def choose_map_def)

lemma stride_5_five: "stride 5 [a, b, c, d, e] = [a]" "stride 5 [b, c, d, e] = [b]"
  "stride 5 [c, d, e] = [c]" "stride 5 [d, e] = [d]" "stride 5 [e] = [e]"
  by simp_all

lemma stride_5_six: "stride 5 [a, b, c, d, e, f] = [a, f]" "stride 5 [b, c, d, e, f] = [b]"
  "stride 5 [c, d, e, f] = [c]" "stride 5 [d, e, f] = [d]" "stride 5 [e, f] = [e]"
  by simp_all

lemma qamMap_no_five_bits: "map_of qamMap ''00000'' = None"
  by (simp add: qamMap_def)

lemma length_stride: "0 < k \<Longrightarrow> length (stride k xs) = (length xs + k - 1) div k"
proof (induction k xs rule: stride.induct)
  case (1 k)
  then show ?case by simp
next
  case (2 k x xs)
  have "Suc ((length xs - (k - 1) + k - 1) div k) = (length xs + k) div k"
  proof (cases "k - 1 \<le> length xs")
    case True
    then have "length xs - (k - 1) + k - 1 = length xs"
      using 2(2) by simp
    then show ?thesis
      using 2(2) by simp
  next
    case False
    then have "length xs - (k - 1) + k - 1 = k - 1" "length xs < k"
      using 2(2) by simp_all
    then show ?thesis
      using 2(2) by simp
  qed
  then show ?case
    using 2 by simp
qed

lemma set_stride: "set (stride k xs) \<subseteq> set xs"
proof (induction k xs rule: stride.induct)
  case (1 k)
  then show ?case by simp
next
  case (2 k x xs)
  then show ?case
    using set_drop_subset [of "k - 1" xs] by auto
qed

lemma stride_drop_bits:
  "set data \<subseteq> {0, 1} \<Longrightarrow> d \<in> set (stride k (drop i data)) \<Longrightarrow> d = 0 \<or> d = (1::int)"
  using set_stride [of k "drop i data"] set_drop_subset [of i data] by auto

lemma stride_bits:
  "set data \<subseteq> {0, 1} \<Longrightarrow> d \<in> set (stride k data) \<Longrightarrow> d = 0 \<or> d = (1::int)"
  using set_stride [of k data] by auto

lemma in_set_zip_both: "(a, b) \<in> set (zip xs ys) \<Longrightarrow> a \<in> set xs \<and> b \<in> set ys"
  by (auto dest: set_zip_leftD set_zip_rightD)

lemma map_symbols_total:
  "\<forall>p \<in> set ps. map_of m p \<noteq> None \<Longrightarrow>
     \<exists>zs. map_symbols m msg ps = Inr zs \<and> length zs = length ps"
  by (induction ps) auto

lemma qpsk_drops_leftover:
  assumes "set data \<subseteq> {0, 1}"
  shows "\<exists>zs. qpsk_modulator data None = Inr zs \<and> length zs = length data div 2"
proof -
  define pattern where "pattern = map (\<lambda>(d0, d1). str_int d0 @ str_int d1)
      (zip (stride 2 data) (stride 2 (drop 1 data)))"
  have l: "length pattern = length data div 2"
    unfolding pattern_def by (simp add: length_stride)
  have "map_of qpskMap p \<noteq> None" if "p \<in> set pattern" for p
  proof -
    from that obtain d0 d1 where p: "p = str_int d0 @ str_int d1"
      and "d0 \<in> set (stride 2 data)" "d1 \<in> set (stride 2 (drop 1 data))"
      unfolding pattern_def by (auto dest!: in_set_zip_both)
    then have "d0 = 0 \<or> d0 = 1" "d1 = 0 \<or> d1 = 1"
      using assms stride_bits stride_drop_bits by blast+
    then show ?thesis
      unfolding p by (auto simp: str_int_bits qpskMap_def)
  qed
  then obtain zs where "map_symbols qpskMap ''Invalid QPSK symbol.'' pattern = Inr zs"
    "length zs = length pattern"
    using map_symbols_total [of pattern qpskMap] by blast
  then show ?thesis
    using l by (simp add: qpsk_modulator_def choose_map_def pattern_def)
qed

lemma psk8_drops_leftover:
  assumes "set data \<subseteq> {0, 1}"
  shows "\<exists>zs. psk8_modulator data None = Inr zs \<and> length zs = length data div 3"
proof -
  define pattern where "pattern = map (\<lambda>(d0, d1, d2). str_int d0 @ str_int d1 @ str_int d2)
      (zip (stride 3 data) (zip (stride 3 (drop 1 data)) (stride 3 (drop 2 data))))"
  have l: "length pattern = length data div 3"
    unfolding pattern_def by (simp add: length_stride)
  have "map_of psk8Map p \<noteq> None" if "p \<in> set pattern" for p
  proof -
    from that obtain d0 d1 d2 where p: "p = str_int d0 @ str_int d1 @ str_int d2"
      and "d0 \<in> set (stride 3 data)" "d1 \<in> set (stride 3 (drop 1 data))"
      "d2 \<in> set (stride 3 (drop 2 data))"
      unfolding pattern_def by (auto dest!: in_set_zip_both)
    then have "d0 = 0 \<or> d0 = 1" "d1 = 0 \<or> d1 = 1" "d2 = 0 \<or> d2 = 1"
      using assms stride_bits stride_drop_bits by blast+
    then show ?thesis
      unfolding p by (auto simp: str_int_bits psk8Map_def)
  qed
  then obtain zs where "map_symbols psk8Map ''Invalid 8PSK symbol.'' pattern = Inr zs"
    "length zs = length pattern"
    using map_symbols_total [of pattern psk8Map] by blast
  then show ?thesis
    using l by (simp add: psk8_modulator_def choose_map_def pattern_def)
qed

lemma qam16_drops_leftover:
  assumes "set data \<subseteq> {0, 1}"
  shows "\<exists>zs. qam16_modulator data None = Inr zs \<and> length zs = length data div 4"
proof -
  define pattern where "pattern =
      map (\<lambda>(d0, d1, d2, d3). str_int d0 @ str_int d1 @ str_int d2 @ str_int d3)
        (zip (stride 4 data) (zip (stride 4 (drop 1 data))
           (zip (stride 4 (drop 2 data)) (stride 4 (drop 3 data)))))"
  have l: "length pattern = length data div 4"
    unfolding pattern_def by (simp add: length_stride)
  have "map_of qamMap p \<noteq> None" if "p \<in> set pattern" for p
  proof -
    from that obtain d0 d1 d2 d3 where
      p: "p = str_int d0 @ str_int d1 @ str_int d2 @ str_int d3"
      and "d0 \<in> set (stride 4 data)" "d1 \<in> set (stride 4 (drop 1 data))"
      "d2 \<in> set (stride 4 (drop 2 data))" "d3 \<in> set (stride 4 (drop 3 data))"
      unfolding pattern_def by (auto dest!: in_set_zip_both)
    then have "d0 = 0 \<or> d0 = 1" "d1 = 0 \<or> d1 = 1" "d2 = 0 \<or> d2 = 1" "d3 = 0 \<or> d3 = 1"
      using assms stride_bits stride_drop_bits by blast+
    then show ?thesis
      unfolding p by (auto simp: str_int_bits qamMap_def)
  qed
  then obtain zs where "map_symbols qamMap ''Invalid 16 QAM symbol.'' pattern = Inr zs"
    "length zs = length pattern"
    using map_symbols_total [of pattern qamMap] by blast
  then show ?thesis
    using l by (simp add: qam16_modulator_def choose_map_def pattern_def)
qed

text \<open>
  Claim C8. In the default map of \<open>qam16_modulator\<close> (\<open>qam16_modulator_default\<close>), any two
  points at Euclidean distance 2, the neighbours on the 4 by 4 grid, carry bit patterns that
  differ in exactly one bit. The statement ranges over all 16 times 16 pairs of the map.
\<close>

theorem qam16_default_map_gray:
  "\<forall>(a, z) \<in> set qamMap. \<forall>(b, w) \<in> set qamMap. dist z w = 2 \<longrightarrow> bit_distance a b = 1"
  unfolding qamMap_def
  by (simp add: dist_Complex_eq_2 bit_distance_def)

theorem qam16_default_map_gray_witness:
  "(''0000'', Complex (- 3) (- 3)) \<in> set qamMap
   \<and> (''0001'', Complex (- 3) (- 1)) \<in> set qamMap
   \<and> dist (Complex (- 3) (- 3)) (Complex (- 3) (- 1)) = 2
   \<and> bit_distance ''0000'' ''0001'' = 1"
proof -
  have a: "(''0000'', Complex (- 3) (- 3)) \<in> set qamMap"
    and b: "(''0001'', Complex (- 3) (- 1)) \<in> set qamMap"
    by (simp_all add: qamMap_def)
  have d: "dist (Complex (- 3) (- 3)) (Complex (- 3) (- 1)) = 2"
    by (simp add: dist_Complex_eq_2)
  from qam16_default_map_gray a b d have "bit_distance ''0000'' ''0001'' = 1"
    by blast
  with a b d show ?thesis by blast
qed

text \<open>
  Claim C9 takes the default map of \<open>qam32_modulator\<close> to cover the 32 patterns of 5 bits.
  The map in the source is the literal of \<open>qam16_modulator\<close>: 16 entries, every key 4
  characters long (the docstring speaks of a 5-variable Karnaugh map, the error message of
  16 QAM). No 5-bit symbol is in it, so five zero bits already raise.
\<close>

theorem qam32_default_map_is_16qam:
  "qam32_modulator [0, 0, 0, 0, 0] None = Inl (ValueError ''Invalid 16 QAM symbol.'')
   \<and> length qamMap = 16
   \<and> map (length \<circ> fst) qamMap = replicate 16 4
   \<and> map_of qamMap ''00000'' = None"
proof -
  have "qam32_modulator [0, 0, 0, 0, 0] None = Inl (ValueError ''Invalid 16 QAM symbol.'')"
    unfolding qam32_modulator_def choose_map_def
    by (simp add: stride_5_five str_int_bits qamMap_no_five_bits)
  moreover have "length qamMap = 16" "map (length \<circ> fst) qamMap = replicate 16 4"
    by (simp_all add: qamMap_def eval_nat_numeral)
  ultimately show ?thesis
    using qamMap_no_five_bits by simp
qed

text \<open>
  Claim C10 has the modulators drop the bits left over after the last full symbol and return
  \<open>len(data) div bitsPerSymbol\<close> symbols. \<open>qpsk_modulator\<close>, \<open>psk8_modulator\<close> and
  \<open>qam16_modulator\<close> do so on every list of bits (\<open>qpsk_drops_leftover\<close>,
  \<open>psk8_drops_leftover\<close>, \<open>qam16_drops_leftover\<close>). \<open>qam32_modulator\<close> raises as soon
  as the list holds one full symbol, by the defect of its default map: six zero bits should
  give one symbol and give a \<open>ValueError\<close>.
\<close>

theorem qam32_leftover_bits_raise:
  "length [0, 0, 0, 0, 0, 0 :: int] div 5 = 1
   \<and> qam32_modulator [0, 0, 0, 0, 0, 0] None = Inl (ValueError ''Invalid 16 QAM symbol.'')"
proof -
  have "qam32_modulator [0, 0, 0, 0, 0, 0] None = Inl (ValueError ''Invalid 16 QAM symbol.'')"
    unfolding qam32_modulator_def choose_map_def
    by (simp add: stride_5_six str_int_bits qamMap_no_five_bits)
  then show ?thesis by simp
qed

end
